theory Spec2Isabelle
  imports Main
begin

section \<open>JavaScript values\<close>

text \<open>
  The values that flow through the indexer at run time: what \<^verbatim>\<open>JSON.parse\<close> returns,
  what a formula reads from contract state, what a webhook computes. \<open>JUndefined\<close> is
  JavaScript's \<^verbatim>\<open>undefined\<close>, \<open>JFun\<close> a built-in function object (named).
\<close>

datatype jsval =
    JUndefined
  | JNull
  | JBool bool
  | JNum int
  | JStr string
  | JArr "jsval list"
  | JObj "(string \<times> jsval) list"
  | JFun string

subsection \<open>Number to string\<close>

text \<open>
  \<^verbatim>\<open>Number.prototype.toString\<close> on a non-negative integer below \<open>10^21\<close>: its decimal
  digits, most significant first, no leading zero.
\<close>

definition decimal_digits :: "(char \<times> nat) list" where
  "decimal_digits =
     [(CHR ''0'', 0), (CHR ''1'', 1), (CHR ''2'', 2), (CHR ''3'', 3), (CHR ''4'', 4),
      (CHR ''5'', 5), (CHR ''6'', 6), (CHR ''7'', 7), (CHR ''8'', 8), (CHR ''9'', 9)]"

text \<open>The character of a digit \<open>d < 10\<close>; \<open>show_nat\<close> calls it on nothing else.\<close>

definition digit_char :: "nat \<Rightarrow> char" where
  "digit_char d = fst (decimal_digits ! d)"

fun show_nat :: "nat \<Rightarrow> string" where
  "show_nat n = (if n < 10 then [digit_char n] else show_nat (n div 10) @ [digit_char (n mod 10)])"

declare show_nat.simps [simp del]

definition digit_val :: "char \<Rightarrow> nat option" where
  "digit_val c = map_of decimal_digits c"

text \<open>Reading a decimal numeral; \<open>None\<close> when the string is empty or has a non-digit.\<close>

fun read_digits :: "nat \<Rightarrow> string \<Rightarrow> nat option" where
  "read_digits acc [] = Some acc"
| "read_digits acc (c # cs) =
     (case digit_val c of None \<Rightarrow> None | Some d \<Rightarrow> read_digits (10 * acc + d) cs)"

definition read_nat :: "string \<Rightarrow> nat option" where
  "read_nat s = (if s = [] then None else read_digits 0 s)"

section \<open>Ingestion driver (src/scripts/export/modules/wasm.ts)\<close>

subsection \<open>Input records\<close>

text \<open>\<^verbatim>\<open>type IndexerWasmEvent\<close>: one line of the stream, after \<^verbatim>\<open>JSON.parse\<close>.\<close>

record IndexerWasmEvent =
  ie_blockHeight :: nat
  ie_blockTimeUnixMs :: nat
  ie_contractAddress :: string
  ie_codeId :: nat
  ie_key :: string
  ie_value :: string
  ie_delete :: bool

subsection \<open>Objects used as dictionaries\<close>

text \<open>
  A JavaScript object with string keys: its own properties in the order they were first
  created. Assigning to an existing property replaces its value and keeps its place.
\<close>

type_synonym 'v js_object = "(string \<times> 'v) list"

fun object_set :: "'v js_object \<Rightarrow> string \<Rightarrow> 'v \<Rightarrow> 'v js_object" where
  "object_set [] k v = [(k, v)]"
| "object_set ((k', v') # ps) k v =
     (if k' = k then (k, v) # ps else (k', v') # object_set ps k v)"

text \<open>
  An array index is the canonical decimal numeral of an integer below \<open>2^32 - 1\<close>.
  \<^verbatim>\<open>Object.values\<close> lists the values of array-index keys first, in ascending numeric
  order, and then the values of all other string keys in creation order.
\<close>

definition is_array_index :: "string \<Rightarrow> bool" where
  "is_array_index s =
     (case read_nat s of None \<Rightarrow> False | Some n \<Rightarrow> show_nat n = s \<and> n < 2 ^ 32 - 1)"

definition index_of_key :: "string \<Rightarrow> nat" where
  "index_of_key s = (case read_nat s of None \<Rightarrow> 0 | Some n \<Rightarrow> n)"

definition Object_values :: "'v js_object \<Rightarrow> 'v list" where
  "Object_values obj =
     map snd (sort_key (\<lambda>p. index_of_key (fst p)) (filter (\<lambda>p. is_array_index (fst p)) obj))
     @ map snd (filter (\<lambda>p. \<not> is_array_index (fst p)) obj)"

subsection \<open>Deduplication in flush\<close>

text \<open>
  \<^verbatim>\<open>const key = event.blockHeight + event.contractAddress + event.key\<close>: the number is
  converted to its decimal string and the three parts are concatenated.
\<close>

definition dedup_key :: "IndexerWasmEvent \<Rightarrow> string" where
  "dedup_key event = show_nat (ie_blockHeight event) @ ie_contractAddress event @ ie_key event"

definition uniqueIndexerEvents :: "IndexerWasmEvent list \<Rightarrow> IndexerWasmEvent js_object" where
  "uniqueIndexerEvents pending =
     foldl (\<lambda>acc event. object_set acc (dedup_key event) event) [] pending"

definition eventsToExport :: "IndexerWasmEvent list \<Rightarrow> IndexerWasmEvent list" where
  "eventsToExport pending = Object_values (uniqueIndexerEvents pending)"

text \<open>The triple the source's comment names as the identity of an event.\<close>

definition event_triple :: "IndexerWasmEvent \<Rightarrow> nat \<times> string \<times> string" where
  "event_triple event = (ie_blockHeight event, ie_contractAddress event, ie_key event)"

subsection \<open>Parsing to normalized form\<close>

text \<open>
  \<^verbatim>\<open>ParsedWasmEvent\<close>, as the object literal in flush builds it. The block height and time
  are the decimal strings of the numbers (\<^verbatim>\<open>toString()\<close>); the timestamp is a
  \<^verbatim>\<open>Date\<close>, kept as its milliseconds.
\<close>

record ParsedWasmEvent =
  pe_codeId :: nat
  pe_contractAddress :: string
  pe_blockHeight :: string
  pe_blockTimeUnixMs :: string
  pe_blockTimestamp :: nat
  pe_key :: string
  pe_value :: string
  pe_valueJson :: jsval
  pe_delete :: bool

text \<open>
  Functions the module imports and whose code is not part of these sources:
  \<^verbatim>\<open>Buffer.from(s, 'base64').toString('utf-8')\<close>, \<^verbatim>\<open>JSON.parse\<close> (\<open>None\<close> when it throws)
  and \<^verbatim>\<open>base64KeyToEventKey\<close> of \<^verbatim>\<open>@/core\<close>. They are parameters of the model.
\<close>

record codecs =
  base64_to_utf8 :: "string \<Rightarrow> string"
  JSON_parse :: "string \<Rightarrow> jsval option"
  base64KeyToEventKey :: "string \<Rightarrow> string"

text \<open>
  \<^verbatim>\<open>event.value && Buffer.from(...)\<close> is the empty string when \<^verbatim>\<open>event.value\<close> is empty;
  \<^verbatim>\<open>if (!event.delete && value)\<close> tests that the decoded string is non-empty; a parse
  error leaves \<^verbatim>\<open>valueJson\<close> at \<^verbatim>\<open>null\<close>.
\<close>

definition decoded_value :: "codecs \<Rightarrow> IndexerWasmEvent \<Rightarrow> string" where
  "decoded_value cd event =
     (if ie_value event = [] then [] else base64_to_utf8 cd (ie_value event))"

definition parseEvent :: "codecs \<Rightarrow> IndexerWasmEvent \<Rightarrow> ParsedWasmEvent" where
  "parseEvent cd event =
     (let value = decoded_value cd event;
          valueJson =
            (if \<not> ie_delete event \<and> value \<noteq> []
             then (case JSON_parse cd value of Some j \<Rightarrow> j | None \<Rightarrow> JNull)
             else JNull)
      in \<lparr>pe_codeId = ie_codeId event,
          pe_contractAddress = ie_contractAddress event,
          pe_blockHeight = show_nat (ie_blockHeight event),
          pe_blockTimeUnixMs = show_nat (ie_blockTimeUnixMs event),
          pe_blockTimestamp = ie_blockTimeUnixMs event,
          pe_key = base64KeyToEventKey cd (ie_key event),
          pe_value = value,
          pe_valueJson = valueJson,
          pe_delete = ie_delete event\<rparr>)"

definition parsedEvents :: "codecs \<Rightarrow> IndexerWasmEvent list \<Rightarrow> ParsedWasmEvent list" where
  "parsedEvents cd pending = map (parseEvent cd) (eventsToExport pending)"

section \<open>Database tables\<close>

text \<open>
  Each table is the list of its rows, in insertion order. Errors thrown by the code or
  by the database are values.
\<close>

datatype error = Error string | TypeError | DbError

record Contract =
  ct_address :: string
  ct_codeId :: nat
  ct_instantiatedAtBlockHeight :: string
  ct_instantiatedAtBlockTimeUnixMs :: string
  ct_instantiatedAtBlockTimestamp :: nat

text \<open>
  A \<^verbatim>\<open>WasmEvent\<close> row. \<open>we_contract\<close> is the association the exporter attaches to the
  instances it hands to the webhooks; it is no column and is \<open>None\<close> in the table.
\<close>

record WasmEvent =
  we_id :: nat
  we_contractAddress :: string
  we_blockHeight :: string
  we_blockTimeUnixMs :: string
  we_blockTimestamp :: nat
  we_key :: string
  we_value :: string
  we_valueJson :: jsval
  we_delete :: bool
  we_contract :: "Contract option"

text \<open>The singleton \<^verbatim>\<open>State\<close> row; a column without a value is \<open>None\<close> (SQL NULL).\<close>

record State =
  st_lastWasmBlockHeightExported :: "nat option"
  st_latestBlockHeight :: "nat option"
  st_latestBlockTimeUnixMs :: "nat option"

text \<open>The endpoint variants that \<^verbatim>\<open>PendingWebhook.fire\<close> distinguishes.\<close>

datatype WebhookEndpoint =
    Url (ep_method: string) (ep_headers: "(string \<times> string) list") (ep_url: string)
  | Soketi (ep_channel: string) (ep_event: string)

record PendingWebhook =
  pw_eventId :: nat
  pw_endpoint :: WebhookEndpoint
  pw_value :: jsval
  pw_failures :: nat

record db =
  db_state :: "State option"
  db_contracts :: "Contract list"
  db_events :: "WasmEvent list"
  db_nextEventId :: nat
  db_pendingWebhooks :: "PendingWebhook list"

subsection \<open>Contract upsert\<close>

text \<open>
  \<^verbatim>\<open>Contract.bulkCreate(rows, { updateOnDuplicate: ['codeId'] })\<close>: a row whose address is
  new is inserted; on a row whose address exists, the listed column alone is written.
\<close>

definition Contract_onDuplicate :: "Contract \<Rightarrow> Contract \<Rightarrow> Contract" where
  "Contract_onDuplicate row old =
     (if ct_address old = ct_address row then old\<lparr>ct_codeId := ct_codeId row\<rparr> else old)"

definition Contract_upsert :: "Contract list \<Rightarrow> Contract \<Rightarrow> Contract list" where
  "Contract_upsert tbl row =
     (if list_ex (\<lambda>old. ct_address old = ct_address row) tbl
      then map (Contract_onDuplicate row) tbl
      else tbl @ [row])"

definition Contract_bulkCreate :: "Contract list \<Rightarrow> Contract list \<Rightarrow> Contract list" where
  "Contract_bulkCreate tbl rows = foldl Contract_upsert tbl rows"

subsection \<open>Event upsert\<close>

text \<open>
  \<^verbatim>\<open>WasmEvent.bulkCreate(parsedEvents, { updateOnDuplicate: ['value', 'valueJson',
  'delete'] })\<close> over the unique index on block height, contract address and key. The
  records are upserted one after the other, so of two records of one call with the same
  key the later one wins; a database that rejects such a call agrees with this on every
  call whose keys are distinct.
\<close>

definition same_event_key :: "ParsedWasmEvent \<Rightarrow> WasmEvent \<Rightarrow> bool" where
  "same_event_key p row =
     (we_blockHeight row = pe_blockHeight p
      \<and> we_contractAddress row = pe_contractAddress p
      \<and> we_key row = pe_key p)"

definition updateOnDuplicate :: "ParsedWasmEvent \<Rightarrow> WasmEvent \<Rightarrow> WasmEvent" where
  "updateOnDuplicate p row =
     row\<lparr>we_value := pe_value p, we_valueJson := pe_valueJson p, we_delete := pe_delete p\<rparr>"

definition new_event_row :: "nat \<Rightarrow> ParsedWasmEvent \<Rightarrow> WasmEvent" where
  "new_event_row i p =
     \<lparr>we_id = i,
      we_contractAddress = pe_contractAddress p,
      we_blockHeight = pe_blockHeight p,
      we_blockTimeUnixMs = pe_blockTimeUnixMs p,
      we_blockTimestamp = pe_blockTimestamp p,
      we_key = pe_key p,
      we_value = pe_value p,
      we_valueJson = pe_valueJson p,
      we_delete = pe_delete p,
      we_contract = None\<rparr>"

definition WasmEvent_onDuplicate :: "ParsedWasmEvent \<Rightarrow> WasmEvent \<Rightarrow> WasmEvent" where
  "WasmEvent_onDuplicate p row = (if same_event_key p row then updateOnDuplicate p row else row)"

definition WasmEvent_upsert :: "WasmEvent list \<times> nat \<Rightarrow> ParsedWasmEvent \<Rightarrow> WasmEvent list \<times> nat" where
  "WasmEvent_upsert tn p =
     (if list_ex (same_event_key p) (fst tn)
      then (map (WasmEvent_onDuplicate p) (fst tn), snd tn)
      else (fst tn @ [new_event_row (snd tn) p], Suc (snd tn)))"

definition WasmEvent_bulkCreate ::
  "WasmEvent list \<times> nat \<Rightarrow> ParsedWasmEvent list \<Rightarrow> WasmEvent list \<times> nat" where
  "WasmEvent_bulkCreate tn ps = foldl WasmEvent_upsert tn ps"

text \<open>The instances \<^verbatim>\<open>bulkCreate\<close> returns: for each submitted record, its row.\<close>

definition returned_events :: "WasmEvent list \<Rightarrow> ParsedWasmEvent list \<Rightarrow> WasmEvent list" where
  "returned_events tbl ps = concat (map (\<lambda>p. filter (same_event_key p) tbl) ps)"

subsection \<open>State checkpoint\<close>

text \<open>SQL \<^verbatim>\<open>GREATEST(column, value)\<close>; PostgreSQL ignores a NULL argument.\<close>

definition sql_greatest :: "nat option \<Rightarrow> nat \<Rightarrow> nat option" where
  "sql_greatest col v = (case col of None \<Rightarrow> Some v | Some c \<Rightarrow> Some (max c v))"

text \<open>
  \<^verbatim>\<open>State.update\<close> with the three \<^verbatim>\<open>GREATEST\<close> expressions. The two values are the
  strings of the last parsed event; the database reads them as integers and rejects
  anything else.
\<close>

definition State_update :: "State \<Rightarrow> string \<Rightarrow> string \<Rightarrow> error + State" where
  "State_update st lastBlockHeightExported lastBlockTimeUnixMsExported =
     (case read_nat lastBlockHeightExported of
        None \<Rightarrow> Inl DbError
      | Some h \<Rightarrow>
          (case read_nat lastBlockTimeUnixMsExported of
             None \<Rightarrow> Inl DbError
           | Some t \<Rightarrow>
               Inr \<lparr>st_lastWasmBlockHeightExported = sql_greatest (st_lastWasmBlockHeightExported st) h,
                    st_latestBlockHeight = sql_greatest (st_latestBlockHeight st) h,
                    st_latestBlockTimeUnixMs = sql_greatest (st_latestBlockTimeUnixMs st) t\<rparr>))"

section \<open>Webhook queue (PendingWebhook.queueWebhooks)\<close>

text \<open>
  A call of a function supplied by a webhook definition either throws or returns. The
  environment handed to it holds the event's block, the contract cache with the event's
  contract, the contract address, and the database its getters read.
\<close>

datatype 'a outcome = Throws | Returns 'a

record Block =
  blk_height :: string
  blk_timeUnixMs :: string
  blk_timestamp :: nat

definition event_block :: "WasmEvent \<Rightarrow> Block" where
  "event_block event =
     \<lparr>blk_height = we_blockHeight event, blk_timeUnixMs = we_blockTimeUnixMs event,
      blk_timestamp = we_blockTimestamp event\<rparr>"

record ContractEnv =
  env_block :: Block
  env_contracts :: "(string \<times> Contract) list"
  env_contractAddress :: string
  env_db :: db

text \<open>
  \<^verbatim>\<open>webhook.endpoint\<close> is a value or a function of the event and the environment;
  \<open>None\<close> is \<^verbatim>\<open>undefined\<close>. \<^verbatim>\<open>getValue\<close> receives the event, the \<^verbatim>\<open>getPrevious\<close>
  thunk and the environment.
\<close>

datatype endpoint_spec =
    EndpointValue "WebhookEndpoint option"
  | EndpointFunction "WasmEvent \<Rightarrow> ContractEnv \<Rightarrow> WebhookEndpoint option outcome"

record Webhook =
  wh_filter :: "WasmEvent \<Rightarrow> bool"
  wh_getValue :: "WasmEvent \<Rightarrow> (unit \<Rightarrow> jsval) \<Rightarrow> ContractEnv \<Rightarrow> jsval outcome"
  wh_endpoint :: endpoint_spec

text \<open>
  JavaScript's \<^verbatim>\<open><\<close> on two strings compares them by code units, left to right. The
  block heights of \<^verbatim>\<open>WasmEvent\<close> instances are the strings the parsed events carry.
\<close>

fun js_string_lt :: "string \<Rightarrow> string \<Rightarrow> bool" where
  "js_string_lt [] [] = False"
| "js_string_lt [] (y # ys) = True"
| "js_string_lt (x # xs) [] = False"
| "js_string_lt (x # xs) (y # ys) =
     (if x = y then js_string_lt xs ys else (of_char x :: nat) < of_char y)"

text \<open>\<^verbatim>\<open>xs.slice(-1)[0]\<close>: the last element, \<^verbatim>\<open>undefined\<close> on the empty array.\<close>

definition slice_last :: "'a list \<Rightarrow> 'a option" where
  "slice_last xs = (case rev xs of [] \<Rightarrow> None | x # _ \<Rightarrow> Some x)"

text \<open>
  The predicate of the batch scan, as written in the source: the middle conjunct compares
  \<^verbatim>\<open>e.key\<close> with itself.
\<close>

definition previous_in_batch :: "WasmEvent \<Rightarrow> WasmEvent \<Rightarrow> bool" where
  "previous_in_batch event e =
     (we_contractAddress e = we_contractAddress event
      \<and> we_key e = we_key e
      \<and> js_string_lt (we_blockHeight e) (we_blockHeight event))"

text \<open>
  The thunk passed to \<^verbatim>\<open>getValue\<close>. \<open>getPreviousEvent\<close> is the database query
  \<^verbatim>\<open>event.getPreviousEvent()\<close> of the \<^verbatim>\<open>WasmEvent\<close> model, a parameter here.
\<close>

definition getPrevious ::
  "(db \<Rightarrow> WasmEvent \<Rightarrow> WasmEvent option) \<Rightarrow> db \<Rightarrow> WasmEvent list \<Rightarrow> WasmEvent \<Rightarrow> unit \<Rightarrow> jsval" where
  "getPrevious getPreviousEvent d events event u =
     (case slice_last (filter (previous_in_batch event) events) of
        Some previousEvent \<Rightarrow>
          (if we_delete previousEvent then JNull else we_valueJson previousEvent)
      | None \<Rightarrow>
          (case getPreviousEvent d event of
             None \<Rightarrow> JNull
           | Some lastEvent \<Rightarrow> (if we_delete lastEvent then JNull else we_valueJson lastEvent)))"

text \<open>
  The body of the inner \<^verbatim>\<open>map\<close>: what one matching webhook contributes for one event.
  \<open>Inr None\<close> is the \<^verbatim>\<open>undefined\<close> that the final filter removes. Reading
  \<^verbatim>\<open>event.contract.address\<close> without a contract is a \<^verbatim>\<open>TypeError\<close> outside both
  \<^verbatim>\<open>try\<close> blocks.
\<close>

definition webhookEnv :: "db \<Rightarrow> WasmEvent \<Rightarrow> Contract \<Rightarrow> ContractEnv" where
  "webhookEnv d event contract =
     \<lparr>env_block = event_block event,
      env_contracts = [(ct_address contract, contract)],
      env_contractAddress = we_contractAddress event,
      env_db = d\<rparr>"

definition webhookForEvent ::
  "(db \<Rightarrow> WasmEvent \<Rightarrow> WasmEvent option) \<Rightarrow> db \<Rightarrow> WasmEvent list \<Rightarrow> WasmEvent \<Rightarrow> Webhook
     \<Rightarrow> error + PendingWebhook option" where
  "webhookForEvent getPreviousEvent d events event webhook =
     (case we_contract event of
        None \<Rightarrow> Inl TypeError
      | Some contract \<Rightarrow>
          (let env = webhookEnv d event contract;
               value =
                 (case wh_getValue webhook event (getPrevious getPreviousEvent d events event) env of
                    Throws \<Rightarrow> JUndefined
                  | Returns v \<Rightarrow> v);
               endpoint =
                 (case wh_endpoint webhook of
                    EndpointFunction f \<Rightarrow>
                      (case f event env of Throws \<Rightarrow> None | Returns ep \<Rightarrow> ep)
                  | EndpointValue ep \<Rightarrow> ep)
           in (case endpoint of
                 None \<Rightarrow> Inr None
               | Some ep \<Rightarrow>
                   (if value = JUndefined then Inr None
                    else Inr (Some \<lparr>pw_eventId = we_id event, pw_endpoint = ep,
                                    pw_value = value, pw_failures = 0\<rparr>)))))"

text \<open>\<^verbatim>\<open>Promise.all\<close>: the results in order, or the first rejection.\<close>

fun Promise_all :: "(error + 'a) list \<Rightarrow> error + 'a list" where
  "Promise_all [] = Inr []"
| "Promise_all (Inl e # rs) = Inl e"
| "Promise_all (Inr x # rs) = (case Promise_all rs of Inl e \<Rightarrow> Inl e | Inr xs \<Rightarrow> Inr (x # xs))"

definition pendingWebhooksToCreate ::
  "(db \<Rightarrow> WasmEvent \<Rightarrow> WasmEvent option) \<Rightarrow> Webhook list \<Rightarrow> db \<Rightarrow> WasmEvent list
     \<Rightarrow> error + PendingWebhook list" where
  "pendingWebhooksToCreate getPreviousEvent webhooks d events =
     (case Promise_all
             (concat (map (\<lambda>event.
                 map (webhookForEvent getPreviousEvent d events event)
                     (filter (\<lambda>webhook. wh_filter webhook event) webhooks)) events)) of
        Inl e \<Rightarrow> Inl e
      | Inr ws \<Rightarrow> Inr (concat (map (\<lambda>w. case w of None \<Rightarrow> [] | Some r \<Rightarrow> [r]) ws)))"

text \<open>
  \<^verbatim>\<open>PendingWebhook.bulkCreate\<close>. The model declares the column \<open>value\<close> with
  \<^verbatim>\<open>@AllowNull(false)\<close>: a row whose value is \<^verbatim>\<open>null\<close> violates the constraint, the
  statement throws and inserts none of its rows. (The endpoint of a row is never
  \<^verbatim>\<open>null\<close> here, and its event id and failures are numbers.)
\<close>

definition PendingWebhook_bulkCreate :: "db \<Rightarrow> PendingWebhook list \<Rightarrow> error + db" where
  "PendingWebhook_bulkCreate d rows =
     (if list_ex (\<lambda>row. pw_value row = JNull) rows then Inl DbError
      else Inr (d\<lparr>db_pendingWebhooks := db_pendingWebhooks d @ rows\<rparr>))"

text \<open>
  \<^verbatim>\<open>queueWebhooks\<close>: nothing to do without webhooks or without rows; otherwise the rows
  are inserted and the number of the rows is returned.
\<close>

definition queueWebhooks ::
  "(db \<Rightarrow> WasmEvent \<Rightarrow> WasmEvent option) \<Rightarrow> Webhook list \<Rightarrow> db \<Rightarrow> WasmEvent list
     \<Rightarrow> error + db \<times> nat" where
  "queueWebhooks getPreviousEvent webhooks d events =
     (if webhooks = [] then Inr (d, 0)
      else (case pendingWebhooksToCreate getPreviousEvent webhooks d events of
              Inl e \<Rightarrow> Inl e
            | Inr rows \<Rightarrow>
                (if rows = [] then Inr (d, 0)
                 else (case PendingWebhook_bulkCreate d rows of
                         Inl e \<Rightarrow> Inl e
                       | Inr d' \<Rightarrow> Inr (d', length rows)))))"

section \<open>Exporter (src/scripts/export/modules/wasm.ts)\<close>

text \<open>
  What the exporter takes from outside these sources: the webhook definitions
  (\<^verbatim>\<open>getProcessedWebhooks(loadConfig(), state)\<close>), the previous-event query, and how
  many times in a row the database makes \<^verbatim>\<open>Contract.bulkCreate\<close> throw.
\<close>

record environment =
  getProcessedWebhooks :: "State \<Rightarrow> Webhook list"
  getPreviousEvent :: "db \<Rightarrow> WasmEvent \<Rightarrow> WasmEvent option"
  bulkCreateFailures :: "db \<Rightarrow> nat"

text \<open>\<^verbatim>\<open>[...new Set(xs)]\<close>: the distinct elements in order of first occurrence.\<close>

definition Set_values :: "'a list \<Rightarrow> 'a list" where
  "Set_values xs = foldl (\<lambda>acc x. if x \<in> set acc then acc else acc @ [x]) [] xs"

text \<open>
  The rows for \<^verbatim>\<open>Contract.bulkCreate\<close>: each address with the code id and the block of
  the first parsed event of that contract. A missing event throws.
\<close>

fun contractRows :: "ParsedWasmEvent list \<Rightarrow> string list \<Rightarrow> error + Contract list" where
  "contractRows parsed [] = Inr []"
| "contractRows parsed (address # rest) =
     (case find (\<lambda>event. pe_contractAddress event = address) parsed of
        None \<Rightarrow> Inl (Error ''Event not found when creating contract.'')
      | Some event \<Rightarrow>
          (case contractRows parsed rest of
             Inl e \<Rightarrow> Inl e
           | Inr rows \<Rightarrow>
               Inr (\<lparr>ct_address = address,
                     ct_codeId = pe_codeId event,
                     ct_instantiatedAtBlockHeight = pe_blockHeight event,
                     ct_instantiatedAtBlockTimeUnixMs = pe_blockTimeUnixMs event,
                     ct_instantiatedAtBlockTimestamp = pe_blockTimestamp event\<rparr> # rows)))"

text \<open>
  The retry loop: \<open>attempts\<close> is \<^verbatim>\<open>contractCreationAttempts\<close>, \<open>failures\<close> the number of
  coming attempts at which the database throws. An error at the last attempt is thrown
  on.
\<close>

fun createContracts ::
  "nat \<Rightarrow> nat \<Rightarrow> Contract list \<Rightarrow> error + Contract list \<Rightarrow> error + Contract list" where
  "createContracts 0 failures tbl rows = Inr tbl"
| "createContracts (Suc attempts) failures tbl (Inl err) =
     (if attempts = 0 then Inl err else createContracts attempts failures tbl (Inl err))"
| "createContracts (Suc attempts) 0 tbl (Inr rows) = Inr (Contract_bulkCreate tbl rows)"
| "createContracts (Suc attempts) (Suc failures) tbl (Inr rows) =
     (if attempts = 0 then Inl DbError else createContracts attempts failures tbl (Inr rows))"

record export_result =
  er_webhooksQueued :: nat
  er_lastBlockHeightExported :: nat

text \<open>
  The exporter on the tables above: the database after the call, and the error thrown or
  the result returned. The transformations, the computation cache, the account webhooks
  and the search index are other modules with tables of their own, and
  \<open>dontUpdateComputations\<close> only gates one of them. An error keeps what was written
  before it. The function is given in its three steps.
\<close>

text \<open>
  Last step: the block height and time of the last parsed event (a \<^verbatim>\<open>TypeError\<close> when
  there is none) go into the \<^verbatim>\<open>State\<close> row, and the result is returned.
\<close>

definition updateCheckpoint ::
  "State \<Rightarrow> db \<Rightarrow> nat \<Rightarrow> ParsedWasmEvent list \<Rightarrow> db \<times> (error + export_result)" where
  "updateCheckpoint state d2 webhooksQueued parsed =
     (case slice_last parsed of
        None \<Rightarrow> (d2, Inl TypeError)
      | Some lastEvent \<Rightarrow>
          (case State_update state (pe_blockHeight lastEvent) (pe_blockTimeUnixMs lastEvent) of
             Inl e \<Rightarrow> (d2, Inl e)
           | Inr state' \<Rightarrow>
               (d2\<lparr>db_state := Some state'\<rparr>,
                Inr \<lparr>er_webhooksQueued = webhooksQueued,
                     er_lastBlockHeightExported =
                       (case read_nat (pe_blockHeight lastEvent) of None \<Rightarrow> 0 | Some h \<Rightarrow> h)\<rparr>)))"

text \<open>\<^verbatim>\<open>event.contract = contracts.find(...)\<close> on each exported event.\<close>

definition attachContracts :: "Contract list \<Rightarrow> WasmEvent list \<Rightarrow> WasmEvent list" where
  "attachContracts contracts events =
     map (\<lambda>event. event\<lparr>we_contract :=
            find (\<lambda>contract. ct_address contract = we_contractAddress event) contracts\<rparr>) events"

text \<open>
  Middle step, once the contracts are created: read them back, upsert the events, attach
  the contracts, queue the webhooks unless told not to.
\<close>

definition exportEvents ::
  "environment \<Rightarrow> State \<Rightarrow> db \<Rightarrow> Contract list \<Rightarrow> ParsedWasmEvent list \<Rightarrow> bool
     \<Rightarrow> db \<times> (error + export_result)" where
  "exportEvents en state d contractTable parsed dontSendWebhooks =
     (let uniqueContracts = Set_values (map pe_contractAddress parsed);
          contracts = filter (\<lambda>c. ct_address c \<in> set uniqueContracts) contractTable;
          created = WasmEvent_bulkCreate (db_events d, db_nextEventId d) parsed;
          exportedEvents = attachContracts contracts (returned_events (fst created) parsed);
          d1 = d\<lparr>db_contracts := contractTable, db_events := fst created,
                  db_nextEventId := snd created\<rparr>
      in case (if dontSendWebhooks then Inr (d1, 0)
               else queueWebhooks (getPreviousEvent en) (getProcessedWebhooks en state)
                      d1 exportedEvents) of
           Inl e \<Rightarrow> (d1, Inl e)
         | Inr (d2, webhooksQueued) \<Rightarrow> updateCheckpoint state d2 webhooksQueued parsed)"

text \<open>First step: the state row must exist, and the contracts are created.\<close>

definition exporter ::
  "environment \<Rightarrow> db \<Rightarrow> ParsedWasmEvent list \<Rightarrow> bool \<Rightarrow> bool \<Rightarrow> db \<times> (error + export_result)" where
  "exporter en d parsed dontUpdateComputations dontSendWebhooks =
     (case db_state d of
        None \<Rightarrow> (d, Inl (Error ''State not found while exporting''))
      | Some state \<Rightarrow>
          (case createContracts 3 (bulkCreateFailures en d) (db_contracts d)
                  (contractRows parsed (Set_values (map pe_contractAddress parsed))) of
             Inl e \<Rightarrow> (d, Inl e)
           | Inr contractTable \<Rightarrow>
               exportEvents en state d contractTable parsed dontSendWebhooks))"

text \<open>A sequence of exporter calls, one per flushed batch, whatever each one returns.\<close>

definition exports :: "environment \<Rightarrow> bool \<Rightarrow> bool \<Rightarrow> db \<Rightarrow> ParsedWasmEvent list list \<Rightarrow> db" where
  "exports en dontUpdateComputations dontSendWebhooks d batches =
     foldl (\<lambda>d parsed. fst (exporter en d parsed dontUpdateComputations dontSendWebhooks))
       d batches"

section \<open>The module: handler and flush\<close>

text \<open>
  The options of \<^verbatim>\<open>wasm\<close> (the \<^verbatim>\<open>ModuleExporterMaker\<close>) and the variables its closures
  share.
\<close>

record maker_options =
  opt_state :: State
  opt_initialBlockHeight :: "nat option"
  opt_batch :: nat
  opt_updateComputations :: bool
  opt_sendWebhooks :: bool

definition initialBlock :: "maker_options \<Rightarrow> nat" where
  "initialBlock opts =
     (case opt_initialBlockHeight opts of
        Some b \<Rightarrow> b
      | None \<Rightarrow>
          (case st_lastWasmBlockHeightExported (opt_state opts) of None \<Rightarrow> 0 | Some h \<Rightarrow> h) + 1)"

record wasm_module =
  pending :: "IndexerWasmEvent list"
  lastBlockHeightSeen :: nat
  catchingUp :: bool

definition wasm_init :: wasm_module where
  "wasm_init = \<lparr>pending = [], lastBlockHeightSeen = 0, catchingUp = True\<rparr>"

text \<open>
  \<^verbatim>\<open>flush\<close>: the module and the database after the call, and the error thrown or the
  records that were exported (none on the early return). The queue is cleared only when
  the exporter returns.
\<close>

definition flush ::
  "codecs \<Rightarrow> environment \<Rightarrow> maker_options \<Rightarrow> wasm_module \<times> db
     \<Rightarrow> (wasm_module \<times> db) \<times> (error + IndexerWasmEvent list)" where
  "flush cd en opts md =
     (if pending (fst md) = [] then (md, Inr [])
      else (case exporter en (snd md) (parsedEvents cd (pending (fst md)))
                   (\<not> opt_updateComputations opts) (\<not> opt_sendWebhooks opts) of
              (d', Inl e) \<Rightarrow> ((fst md, d'), Inl e)
            | (d', Inr r) \<Rightarrow>
                (((fst md)\<lparr>pending := []\<rparr>, d'), Inr (eventsToExport (pending (fst md))))))"

text \<open>
  \<^verbatim>\<open>handler\<close> on one line of the stream; \<open>None\<close> is a line that is no JSON or has not the
  expected structure. The last component tells what happened to flush: \<open>Inr None\<close> when
  it was not invoked, \<open>Inr (Some batch)\<close> when it was invoked and returned, \<open>Inl e\<close>
  when it threw (the handler then throws too, before the record is queued).
\<close>

definition handler ::
  "codecs \<Rightarrow> environment \<Rightarrow> maker_options \<Rightarrow> wasm_module \<times> db \<Rightarrow> IndexerWasmEvent option
     \<Rightarrow> (wasm_module \<times> db) \<times> (error + IndexerWasmEvent list option)" where
  "handler cd en opts md line =
     (case line of
        None \<Rightarrow> (md, Inr None)
      | Some event \<Rightarrow>
          (if ie_blockHeight event < initialBlock opts
           then (((fst md)\<lparr>lastBlockHeightSeen := ie_blockHeight event\<rparr>, snd md), Inr None)
           else
             (let m1 = (if catchingUp (fst md) then (fst md)\<lparr>catchingUp := False\<rparr> else fst md)
              in if opt_batch opts \<le> length (pending m1)
                    \<and> lastBlockHeightSeen m1 < ie_blockHeight event
                 then (case flush cd en opts (m1, snd md) of
                         (md', Inl e) \<Rightarrow> (md', Inl e)
                       | ((m2, d2), Inr batch) \<Rightarrow>
                           ((m2\<lparr>pending := pending m2 @ [event],
                                lastBlockHeightSeen := ie_blockHeight event\<rparr>, d2),
                            Inr (Some batch)))
                 else ((m1\<lparr>pending := pending m1 @ [event],
                           lastBlockHeightSeen := ie_blockHeight event\<rparr>, snd md),
                       Inr None))))"

text \<open>
  Reading a stream: the handler on each line, then the flush at the end of the stream.
  The run stops at the first error thrown. The result carries the batches exported so
  far, one per flush that reached the exporter and returned, in order.
\<close>

fun run ::
  "codecs \<Rightarrow> environment \<Rightarrow> maker_options \<Rightarrow> wasm_module \<times> db \<Rightarrow> IndexerWasmEvent option list
     \<Rightarrow> (wasm_module \<times> db) \<times> IndexerWasmEvent list list \<times> error option" where
  "run cd en opts md [] =
     (case flush cd en opts md of
        (md', Inl e) \<Rightarrow> (md', [], Some e)
      | (md', Inr batch) \<Rightarrow> (md', [batch], None))"
| "run cd en opts md (line # rest) =
     (case handler cd en opts md line of
        (md', Inl e) \<Rightarrow> (md', [], Some e)
      | (md', Inr None) \<Rightarrow> run cd en opts md' rest
      | (md', Inr (Some batch)) \<Rightarrow>
          (case run cd en opts md' rest of (md'', log, err) \<Rightarrow> (md'', batch # log, err)))"

section \<open>DAO core formulas\<close>

text \<open>
  A formula is an \<^verbatim>\<open>async\<close> function of its environment: it yields a promise, fulfilled
  with a value or rejected with what was thrown. So is \<^verbatim>\<open>get\<close>: every call site awaits
  its result. TypeScript's types are erased at run time, so the contract address of an
  environment is whatever value was put there.
\<close>

datatype 'a promise = Fulfilled 'a | Rejected error

record FormulaEnv =
  f_contractAddress :: jsval
  f_get :: "jsval \<Rightarrow> string \<Rightarrow> jsval promise"
  f_args :: "(string \<times> jsval) list"

type_synonym Formula = "FormulaEnv \<Rightarrow> jsval promise"

subsection \<open>Operators of the language\<close>

text \<open>String conversion, as \<^verbatim>\<open>+\<close> with a string operand and template literals do it.\<close>

definition show_int :: "int \<Rightarrow> string" where
  "show_int i = (if i < 0 then CHR ''-'' # show_nat (nat (- i)) else show_nat (nat i))"

fun join_comma :: "string list \<Rightarrow> string" where
  "join_comma [] = []"
| "join_comma [s] = s"
| "join_comma (s # t # ts) = s @ CHR '','' # join_comma (t # ts)"

fun js_to_string :: "jsval \<Rightarrow> string" where
  "js_to_string JUndefined = ''undefined''"
| "js_to_string JNull = ''null''"
| "js_to_string (JBool b) = (if b then ''true'' else ''false'')"
| "js_to_string (JNum i) = show_int i"
| "js_to_string (JStr s) = s"
| "js_to_string (JArr xs) =
     join_comma (map (\<lambda>x. if x = JUndefined \<or> x = JNull then [] else js_to_string x) xs)"
| "js_to_string (JObj ps) = ''[object Object]''"
| "js_to_string (JFun name) = ''function '' @ name @ ''() { [native code] }''"

text \<open>
  \<^verbatim>\<open>v.contract\<close>: a \<^verbatim>\<open>TypeError\<close> on \<^verbatim>\<open>undefined\<close> and \<^verbatim>\<open>null\<close>; the own property of
  an object, \<^verbatim>\<open>undefined\<close> when it has none of that name; \<^verbatim>\<open>undefined\<close> on any other
  value, none of which has a property of the names read here.
\<close>

fun js_member :: "jsval \<Rightarrow> string \<Rightarrow> error + jsval" where
  "js_member JUndefined name = Inl TypeError"
| "js_member JNull name = Inl TypeError"
| "js_member (JObj ps) name = (case map_of ps name of None \<Rightarrow> Inr JUndefined | Some v \<Rightarrow> Inr v)"
| "js_member v name = Inr JUndefined"

subsection \<open>Reads of one key\<close>

definition info :: Formula where
  "info env = f_get env (f_contractAddress env) ''contract_info''"

definition votingModule :: Formula where
  "votingModule env = f_get env (f_contractAddress env) ''voting_module''"

subsection \<open>Dispatch on the voting module\<close>

text \<open>
  The four sub-formulas are imported from \<^verbatim>\<open>./daoVotingCw4\<close> and
  \<^verbatim>\<open>./daoVotingCw20Staked\<close>, which are not part of these sources.
\<close>

record subformulas =
  daoVotingCw4VotingPower :: Formula
  daoVotingCw20StakedVotingPower :: Formula
  daoVotingCw4TotalPower :: Formula
  daoVotingCw20StakedTotalPower :: Formula

definition VOTING_POWER_MAP :: "subformulas \<Rightarrow> (string \<times> Formula) list" where
  "VOTING_POWER_MAP sf =
     [(''cw4-voting'', daoVotingCw4VotingPower sf),
      (''cwd-voting-cw4'', daoVotingCw4VotingPower sf),
      (''dao-voting-cw4'', daoVotingCw4VotingPower sf),
      (''cw20-staked-balance-voting'', daoVotingCw20StakedVotingPower sf),
      (''cwd-voting-cw20-staked'', daoVotingCw20StakedVotingPower sf),
      (''dao-voting-cw20-staked'', daoVotingCw20StakedVotingPower sf)]"

definition TOTAL_POWER_MAP :: "subformulas \<Rightarrow> (string \<times> Formula) list" where
  "TOTAL_POWER_MAP sf =
     [(''cw4-voting'', daoVotingCw4TotalPower sf),
      (''cwd-voting-cw4'', daoVotingCw4TotalPower sf),
      (''dao-voting-cw4'', daoVotingCw4TotalPower sf),
      (''cw20-staked-balance-voting'', daoVotingCw20StakedTotalPower sf),
      (''cwd-voting-cw20-staked'', daoVotingCw20StakedTotalPower sf),
      (''dao-voting-cw20-staked'', daoVotingCw20StakedTotalPower sf)]"

text \<open>
  The body shared by \<^verbatim>\<open>votingPower\<close> and \<^verbatim>\<open>totalPower\<close>, which differ in the table
  only. The table is read at \<^verbatim>\<open>'crates.io:' + votingModuleInfo.contract\<close>; the names an
  object literal inherits do not begin with that prefix, so only its own entries count.
\<close>

definition dispatch :: "(string \<times> Formula) list \<Rightarrow> Formula" where
  "dispatch table env =
     (case votingModule env of
        Rejected e \<Rightarrow> Rejected e
      | Fulfilled votingModuleAddress \<Rightarrow>
          (case info (env\<lparr>f_contractAddress := votingModuleAddress\<rparr>) of
             Rejected e \<Rightarrow> Rejected e
           | Fulfilled votingModuleInfo \<Rightarrow>
               (case js_member votingModuleInfo ''contract'' of
                  Inl e \<Rightarrow> Rejected e
                | Inr contract \<Rightarrow>
                    (case map_of table (''crates.io:'' @ js_to_string contract) of
                       None \<Rightarrow>
                         Rejected (Error (''Unexpected voting module: '' @ js_to_string contract))
                     | Some formula \<Rightarrow>
                         formula (env\<lparr>f_contractAddress := votingModuleAddress\<rparr>)))))"

definition votingPower :: "subformulas \<Rightarrow> Formula" where
  "votingPower sf = dispatch (VOTING_POWER_MAP sf)"

definition totalPower :: "subformulas \<Rightarrow> Formula" where
  "totalPower sf = dispatch (TOTAL_POWER_MAP sf)"

subsection \<open>The item formula\<close>

text \<open>
  \<^verbatim>\<open>await get(contractAddress, 'items')?.[key]\<close> parses as
  \<^verbatim>\<open>await (get(contractAddress, 'items')?.[key])\<close>: the subscript is applied to the
  promise that \<^verbatim>\<open>get\<close> returned. A promise is an object, so \<^verbatim>\<open>?.\<close> goes on, and it has
  no own properties: the lookup finds what \<^verbatim>\<open>Promise.prototype\<close> and
  \<^verbatim>\<open>Object.prototype\<close> define, and \<^verbatim>\<open>undefined\<close> for every other name.
\<close>

definition promise_property_names :: "string list" where
  "promise_property_names =
     [''then'', ''catch'', ''finally'', ''constructor'', ''__proto__'',
      ''hasOwnProperty'', ''isPrototypeOf'', ''propertyIsEnumerable'', ''toLocaleString'',
      ''toString'', ''valueOf'', ''__defineGetter__'', ''__defineSetter__'',
      ''__lookupGetter__'', ''__lookupSetter__'']"

definition promise_member :: "jsval promise \<Rightarrow> string \<Rightarrow> jsval" where
  "promise_member p name = (if name \<in> set promise_property_names then JFun name else JUndefined)"

text \<open>
  \<^verbatim>\<open>args: { key }\<close> reads the argument named \<^verbatim>\<open>key\<close>, and a subscript is converted to
  a string. Awaiting a value that is no promise and has no \<^verbatim>\<open>then\<close> yields the value.
  The one inherited value with a \<^verbatim>\<open>then\<close> is \<^verbatim>\<open>Promise.prototype\<close> itself, under the
  name \<^verbatim>\<open>__proto__\<close>: awaiting it calls that \<^verbatim>\<open>then\<close> on a receiver that is no promise,
  a \<^verbatim>\<open>TypeError\<close>.
\<close>

definition args_key :: "FormulaEnv \<Rightarrow> string" where
  "args_key env =
     js_to_string (case map_of (f_args env) ''key'' of None \<Rightarrow> JUndefined | Some v \<Rightarrow> v)"

definition item :: Formula where
  "item env =
     (if args_key env = ''__proto__'' then Rejected TypeError
      else Fulfilled (promise_member (f_get env (f_contractAddress env) ''items'') (args_key env)))"

section \<open>What the specification says of the webhook queue\<close>





section \<open>Notions used in the statements\<close>

text \<open>A contract row with its code id blanked: everything the upsert must not touch.\<close>

definition erase_codeId :: "Contract \<Rightarrow> Contract" where
  "erase_codeId c = c\<lparr>ct_codeId := 0\<rparr>"

text \<open>The order of a checkpoint column: NULL lies below every number.\<close>

definition col_le :: "nat option \<Rightarrow> nat option \<Rightarrow> bool" where
  "col_le a b =
     (case a of None \<Rightarrow> True | Some x \<Rightarrow> (case b of None \<Rightarrow> False | Some y \<Rightarrow> x \<le> y))"

definition checkpoint_le :: "State \<Rightarrow> State \<Rightarrow> bool" where
  "checkpoint_le s s' =
     (col_le (st_lastWasmBlockHeightExported s) (st_lastWasmBlockHeightExported s')
      \<and> col_le (st_latestBlockHeight s) (st_latestBlockHeight s')
      \<and> col_le (st_latestBlockTimeUnixMs s) (st_latestBlockTimeUnixMs s'))"

text \<open>The same order on the table: the singleton row is there before and after, or never.\<close>

definition state_le :: "State option \<Rightarrow> State option \<Rightarrow> bool" where
  "state_le a b =
     (case a of
        None \<Rightarrow> b = None
      | Some s \<Rightarrow> (case b of None \<Rightarrow> False | Some s' \<Rightarrow> checkpoint_le s s'))"

text \<open>The records of a stream: its lines without those that do not parse.\<close>

definition stream_records :: "IndexerWasmEvent option list \<Rightarrow> IndexerWasmEvent list" where
  "stream_records lines = concat (map (\<lambda>line. case line of None \<Rightarrow> [] | Some event \<Rightarrow> [event]) lines)"

text \<open>Every record of one batch lies in an earlier block than every record of another.\<close>

definition blocks_before :: "IndexerWasmEvent list \<Rightarrow> IndexerWasmEvent list \<Rightarrow> bool" where
  "blocks_before A B = (\<forall>a\<in>set A. \<forall>b\<in>set B. ie_blockHeight a < ie_blockHeight b)"

text \<open>
  The columns of the unique index on events: as flush writes them for a record, and as a
  row holds them.
\<close>

definition stored_key :: "codecs \<Rightarrow> IndexerWasmEvent \<Rightarrow> string \<times> string \<times> string" where
  "stored_key cd event =
     (show_nat (ie_blockHeight event), ie_contractAddress event,
      base64KeyToEventKey cd (ie_key event))"

definition row_key :: "WasmEvent \<Rightarrow> string \<times> string \<times> string" where
  "row_key row = (we_blockHeight row, we_contractAddress row, we_key row)"



section \<open>Concrete inputs\<close>

text \<open>
  Two records of one block whose contract addresses and keys differ and whose
  concatenations agree.
\<close>

definition record_xyz :: IndexerWasmEvent where
  "record_xyz =
     \<lparr>ie_blockHeight = 7, ie_blockTimeUnixMs = 7000, ie_contractAddress = ''juno1xyz'',
      ie_codeId = 1, ie_key = ''acdefghj'', ie_value = ''MQ=='', ie_delete = False\<rparr>"

definition record_xyzacde :: IndexerWasmEvent where
  "record_xyzacde =
     \<lparr>ie_blockHeight = 7, ie_blockTimeUnixMs = 7000, ie_contractAddress = ''juno1xyzacde'',
      ie_codeId = 1, ie_key = ''fghj'', ie_value = ''Mg=='', ie_delete = False\<rparr>"

definition contract_A :: Contract where
  "contract_A =
     \<lparr>ct_address = ''A'', ct_codeId = 1, ct_instantiatedAtBlockHeight = ''1'',
      ct_instantiatedAtBlockTimeUnixMs = ''1000'', ct_instantiatedAtBlockTimestamp = 1000\<rparr>"

text \<open>
  Two events of contract \<open>A\<close> in one batch, on different keys, and the event that the
  store holds for the second key at an earlier block.
\<close>

definition batch_event_k1 :: WasmEvent where
  "batch_event_k1 =
     \<lparr>we_id = 1, we_contractAddress = ''A'', we_blockHeight = ''1'',
      we_blockTimeUnixMs = ''1000'', we_blockTimestamp = 1000, we_key = ''107,49'',
      we_value = ''10'', we_valueJson = JNum 10, we_delete = False,
      we_contract = Some contract_A\<rparr>"

definition batch_event_k2 :: WasmEvent where
  "batch_event_k2 =
     \<lparr>we_id = 2, we_contractAddress = ''A'', we_blockHeight = ''2'',
      we_blockTimeUnixMs = ''2000'', we_blockTimestamp = 2000, we_key = ''107,50'',
      we_value = ''20'', we_valueJson = JNum 20, we_delete = False,
      we_contract = Some contract_A\<rparr>"

definition stored_event_k2 :: WasmEvent where
  "stored_event_k2 =
     \<lparr>we_id = 0, we_contractAddress = ''A'', we_blockHeight = ''0'',
      we_blockTimeUnixMs = ''0'', we_blockTimestamp = 0, we_key = ''107,50'',
      we_value = ''5'', we_valueJson = JNum 5, we_delete = False,
      we_contract = None\<rparr>"

text \<open>
  A DAO whose voting module \<open>vm\<close> reports the contract name \<open>dao-voting-cw4\<close>, and whose
  \<open>items\<close> map holds the key \<open>foo\<close>.
\<close>

definition dao_get :: "jsval \<Rightarrow> string \<Rightarrow> jsval promise" where
  "dao_get address k =
     (if address = JStr ''dao'' \<and> k = ''voting_module'' then Fulfilled (JStr ''vm'')
      else if address = JStr ''vm'' \<and> k = ''contract_info''
        then Fulfilled (JObj [(''contract'', JStr ''dao-voting-cw4''), (''version'', JStr ''2.0.0'')])
      else if address = JStr ''dao'' \<and> k = ''items''
        then Fulfilled (JObj [(''foo'', JStr ''bar'')])
      else Fulfilled JUndefined)"

definition dao_env :: FormulaEnv where
  "dao_env = \<lparr>f_contractAddress = JStr ''dao'', f_get = dao_get,
              f_args = [(''address'', JStr ''voter''), (''key'', JStr ''foo'')]\<rparr>"

text \<open>
  Four webhooks that match every event: one reports the previous and the new value to a
  channel, one posts the previous value, one throws in \<^verbatim>\<open>getValue\<close>, one resolves no
  endpoint.
\<close>

definition hook_change :: Webhook where
  "hook_change =
     \<lparr>wh_filter = (\<lambda>event. True),
      wh_getValue = (\<lambda>event previous env.
         Returns (JObj [(''from'', previous ()), (''to'', we_valueJson event)])),
      wh_endpoint = EndpointValue (Some (Soketi ''changes'' ''update''))\<rparr>"




text \<open>
  A database with the singleton state row and nothing else, an environment with the
  first webhook in which the database never fails, and one parsed event.
\<close>

definition db_fresh :: db where
  "db_fresh =
     \<lparr>db_state = Some \<lparr>st_lastWasmBlockHeightExported = Some 3, st_latestBlockHeight = Some 9,
                         st_latestBlockTimeUnixMs = None\<rparr>,
      db_contracts = [], db_events = [], db_nextEventId = 1, db_pendingWebhooks = []\<rparr>"

definition env_one_hook :: environment where
  "env_one_hook =
     \<lparr>getProcessedWebhooks = (\<lambda>state. [hook_change]),
      getPreviousEvent = (\<lambda>d event. None),
      bulkCreateFailures = (\<lambda>d. 0)\<rparr>"




text \<open>
  A module with one record queued, the codecs on the strings of that record, and the
  options of a run with webhooks.
\<close>

definition record_A7 :: IndexerWasmEvent where
  "record_A7 =
     \<lparr>ie_blockHeight = 7, ie_blockTimeUnixMs = 7000, ie_contractAddress = ''A'',
      ie_codeId = 1, ie_key = ''azE='', ie_value = ''MTA='', ie_delete = False\<rparr>"

definition codecs_A :: codecs where
  "codecs_A =
     \<lparr>base64_to_utf8 = (\<lambda>s. if s = ''MTA='' then ''10'' else []),
      JSON_parse = (\<lambda>s. if s = ''10'' then Some (JNum 10) else None),
      base64KeyToEventKey = (\<lambda>s. if s = ''azE='' then ''107,49'' else s)\<rparr>"

definition options_A :: maker_options where
  "options_A =
     \<lparr>opt_state = \<lparr>st_lastWasmBlockHeightExported = Some 3, st_latestBlockHeight = Some 9,
                    st_latestBlockTimeUnixMs = None\<rparr>,
      opt_initialBlockHeight = None, opt_batch = 2, opt_updateComputations = True,
      opt_sendWebhooks = True\<rparr>"

text \<open>
  A stream of two records of block 5, a line that does not parse and a record of block 6,
  read with a batch size of one and without webhooks; and the database after the first
  flush of that run.
\<close>

definition record_A5 :: IndexerWasmEvent where
  "record_A5 =
     \<lparr>ie_blockHeight = 5, ie_blockTimeUnixMs = 5000, ie_contractAddress = ''A'',
      ie_codeId = 1, ie_key = ''azE='', ie_value = ''MTA='', ie_delete = False\<rparr>"

definition record_A5_delete :: IndexerWasmEvent where
  "record_A5_delete =
     \<lparr>ie_blockHeight = 5, ie_blockTimeUnixMs = 5000, ie_contractAddress = ''A'',
      ie_codeId = 1, ie_key = ''azI='', ie_value = [], ie_delete = True\<rparr>"

definition record_A6 :: IndexerWasmEvent where
  "record_A6 =
     \<lparr>ie_blockHeight = 6, ie_blockTimeUnixMs = 6000, ie_contractAddress = ''A'',
      ie_codeId = 1, ie_key = ''azE='', ie_value = ''MTA='', ie_delete = False\<rparr>"

definition stream_56 :: "IndexerWasmEvent option list" where
  "stream_56 = [Some record_A5, Some record_A5_delete, None, Some record_A6]"

definition options_batch1 :: maker_options where
  "options_batch1 = options_A\<lparr>opt_batch := 1, opt_sendWebhooks := False\<rparr>"

definition db_after_5 :: db where
  "db_after_5 =
     \<lparr>db_state = Some \<lparr>st_lastWasmBlockHeightExported = Some 5, st_latestBlockHeight = Some 9,
                         st_latestBlockTimeUnixMs = Some 5000\<rparr>,
      db_contracts =
        [\<lparr>ct_address = ''A'', ct_codeId = 1, ct_instantiatedAtBlockHeight = ''5'',
          ct_instantiatedAtBlockTimeUnixMs = ''5000'', ct_instantiatedAtBlockTimestamp = 5000\<rparr>],
      db_events =
        [\<lparr>we_id = 1, we_contractAddress = ''A'', we_blockHeight = ''5'',
          we_blockTimeUnixMs = ''5000'', we_blockTimestamp = 5000, we_key = ''107,49'',
          we_value = ''10'', we_valueJson = JNum 10, we_delete = False, we_contract = None\<rparr>,
         \<lparr>we_id = 2, we_contractAddress = ''A'', we_blockHeight = ''5'',
          we_blockTimeUnixMs = ''5000'', we_blockTimestamp = 5000, we_key = ''azI='',
          we_value = [], we_valueJson = JNull, we_delete = True, we_contract = None\<rparr>],
      db_nextEventId = 3,
      db_pendingWebhooks = []\<rparr>"

section \<open>Properties\<close>

subsection \<open>Unfolding the model on concrete inputs\<close>

lemma createContracts_first_attempt:
  "createContracts 3 0 tbl (Inr rows) = Inr (Contract_bulkCreate tbl rows)"
  by (simp add: numeral_3_eq_3)

lemmas exporter_eval =
  exporter_def exportEvents_def updateCheckpoint_def attachContracts_def Set_values_def createContracts_first_attempt
  Contract_bulkCreate_def Contract_upsert_def Contract_onDuplicate_def WasmEvent_bulkCreate_def
  WasmEvent_upsert_def WasmEvent_onDuplicate_def
  same_event_key_def new_event_row_def updateOnDuplicate_def returned_events_def queueWebhooks_def
  PendingWebhook_bulkCreate_def
  pendingWebhooksToCreate_def webhookForEvent_def getPrevious_def
  previous_in_batch_def slice_last_def State_update_def read_nat_def digit_val_def
  decimal_digits_def sql_greatest_def webhookEnv_def event_block_def Let_def

lemmas dedup_eval =
  eventsToExport_def uniqueIndexerEvents_def dedup_key_def Object_values_def
  is_array_index_def read_nat_def digit_val_def decimal_digits_def show_nat.simps digit_char_def

lemmas parse_eval =
  parseEvent_def decoded_value_def show_nat.simps digit_char_def decimal_digits_def

lemmas flush_eval =
  flush_def parsedEvents_def parseEvent_def decoded_value_def eventsToExport_def
  uniqueIndexerEvents_def dedup_key_def Object_values_def is_array_index_def
  show_nat.simps digit_char_def

subsection \<open>Deduplication\<close>

lemma later_record_of_a_triple_wins:
  "event_triple a = event_triple b \<Longrightarrow> eventsToExport [a, b] = [b]"
  by (simp add: event_triple_def eventsToExport_def uniqueIndexerEvents_def dedup_key_def
      Object_values_def)

text \<open>
  C1. The claim: the deduplication step of flush keeps exactly one record per distinct
  (blockHeight, contractAddress, key) triple, the last one in buffer order, and never
  merges records whose triples differ. Of two records with the same triple the later one
  is kept (\<open>later_record_of_a_triple_wins\<close>). But the code keys the records by the
  concatenation of the three parts with no separator: at block 7 the record of contract
  \<open>juno1xyz\<close>, key \<open>acdefghj\<close> and the record of contract \<open>juno1xyzacde\<close>, key \<open>fghj\<close>
  have different triples and the same concatenation. The first one is dropped, and one
  record is exported for two triples.
\<close>

theorem dedup_merges_distinct_triples:
  "event_triple record_xyz \<noteq> event_triple record_xyzacde
   \<and> eventsToExport [record_xyz, record_xyzacde] = [record_xyzacde]"
  by (simp add: event_triple_def dedup_eval record_xyz_def record_xyzacde_def)

subsection \<open>The previous value handed to a webhook\<close>

text \<open>
  C2. The claim: \<^verbatim>\<open>getPrevious()\<close> returns the value of the most recent event with the
  same contract address and the same key at a lower block, from the batch first and from
  the event store otherwise. The batch holds an event of contract \<open>A\<close> on key \<open>107,49\<close>
  at block 1 with value 10 and one on key \<open>107,50\<close> at block 2; the store holds the
  value 5 for key \<open>107,50\<close> at block 0. For the second event the thunk returns 10, the
  value of the other key: the scan compares \<^verbatim>\<open>e.key\<close> with itself.
\<close>

theorem getPrevious_other_key:
  "we_key batch_event_k1 \<noteq> we_key batch_event_k2
   \<and> getPrevious (\<lambda>d e. Some stored_event_k2) d [batch_event_k1, batch_event_k2] batch_event_k2 ()
       = JNum 10"
  by (simp add: getPrevious_def previous_in_batch_def slice_last_def batch_event_k1_def
      batch_event_k2_def stored_event_k2_def)


subsection \<open>Rows queued for webhooks\<close>













subsection \<open>Dispatch on the voting module\<close>

lemma dispatch_rejects:
  assumes "\<And>s. map_of table (''crates.io:'' @ s) = None"
  shows "\<exists>e. dispatch table env = Rejected e"
  using assms by (auto simp: dispatch_def split: promise.splits sum.splits)

lemma votingPower_rejects: "\<exists>e. votingPower sf env = Rejected e"
  unfolding votingPower_def by (rule dispatch_rejects) (simp add: VOTING_POWER_MAP_def)

lemma totalPower_rejects: "\<exists>e. totalPower sf env = Rejected e"
  unfolding totalPower_def by (rule dispatch_rejects) (simp add: TOTAL_POWER_MAP_def)

text \<open>
  C9. The claim: when the voting module's contract name is one of the names in the
  table, \<^verbatim>\<open>votingPower\<close> returns what the sub-formula of that name returns, and it throws
  exactly when the name is absent; likewise \<^verbatim>\<open>totalPower\<close>. The name
  \<open>dao-voting-cw4\<close> is in both tables, and both formulas throw on a DAO whose voting module
  reports it: the tables are read at the name with \<open>crates.io:\<close> put before it, and no
  entry has that prefix (by \<open>votingPower_rejects\<close> and \<open>totalPower_rejects\<close> no
  environment reaches a sub-formula).
\<close>

theorem votingPower_listed_name_rejected:
  "map_of (VOTING_POWER_MAP sf) ''dao-voting-cw4'' = Some (daoVotingCw4VotingPower sf)
   \<and> votingPower sf dao_env = Rejected (Error ''Unexpected voting module: dao-voting-cw4'')
   \<and> map_of (TOTAL_POWER_MAP sf) ''dao-voting-cw4'' = Some (daoVotingCw4TotalPower sf)
   \<and> totalPower sf dao_env = Rejected (Error ''Unexpected voting module: dao-voting-cw4'')"
  by (simp add: votingPower_def totalPower_def dispatch_def votingModule_def info_def dao_env_def
      dao_get_def VOTING_POWER_MAP_def TOTAL_POWER_MAP_def)


subsection \<open>The item formula\<close>

text \<open>
  C10. When the argument \<open>key\<close> is not the name of a property that a promise inherits,
  \<^verbatim>\<open>item\<close> yields \<^verbatim>\<open>undefined\<close>, whatever \<^verbatim>\<open>get\<close> returns: the result does not depend
  on the stored \<open>items\<close> map.
\<close>

theorem item_ignores_items:
  "args_key env \<notin> set promise_property_names \<Longrightarrow>
   item env = Fulfilled JUndefined \<and> item (env\<lparr>f_get := g\<rparr>) = Fulfilled JUndefined"
  by (auto simp: item_def promise_member_def args_key_def promise_property_names_def)

theorem item_ignores_items_witness:
  "args_key dao_env = ''foo''
   \<and> f_get dao_env (f_contractAddress dao_env) ''items'' = Fulfilled (JObj [(''foo'', JStr ''bar'')])
   \<and> item dao_env = Fulfilled JUndefined"
proof -
  have k: "args_key dao_env = ''foo''" by (simp add: args_key_def dao_env_def)
  have n: "args_key dao_env \<notin> set promise_property_names"
    by (simp add: k promise_property_names_def)
  from item_ignores_items [OF n] k show ?thesis
    by (simp add: dao_env_def dao_get_def)
qed


subsection \<open>Contract rows\<close>

lemma Contract_upsert_length: "length tbl \<le> length (Contract_upsert tbl row)"
  by (simp add: Contract_upsert_def)

lemma Contract_upsert_frame:
  "map erase_codeId (take (length tbl) (Contract_upsert tbl row)) = map erase_codeId tbl"
  by (auto simp: Contract_upsert_def Contract_onDuplicate_def erase_codeId_def)

lemma Contract_bulkCreate_frame_aux:
  "n \<le> length tbl \<Longrightarrow>
   n \<le> length (foldl Contract_upsert tbl rows)
   \<and> map erase_codeId (take n (foldl Contract_upsert tbl rows)) = map erase_codeId (take n tbl)"
proof (induction rows arbitrary: tbl)
  case Nil
  then show ?case by simp
next
  case (Cons r rows)
  have le: "n \<le> length (Contract_upsert tbl r)"
    using Cons.prems Contract_upsert_length [of tbl r] by simp
  have "map erase_codeId (take n (Contract_upsert tbl r))
        = take n (map erase_codeId (take (length tbl) (Contract_upsert tbl r)))"
    using Cons.prems by (simp add: take_map min_def)
  also have "\<dots> = map erase_codeId (take n tbl)"
    by (simp add: Contract_upsert_frame take_map)
  finally have "map erase_codeId (take n (Contract_upsert tbl r)) = map erase_codeId (take n tbl)" .
  with Cons.IH [OF le] show ?case by simp
qed

lemma Contract_bulkCreate_frame:
  "n \<le> length tbl \<Longrightarrow>
   n \<le> length (Contract_bulkCreate tbl rows)
   \<and> map erase_codeId (take n (Contract_bulkCreate tbl rows)) = map erase_codeId (take n tbl)"
  unfolding Contract_bulkCreate_def by (rule Contract_bulkCreate_frame_aux)

lemma createContracts_frame:
  "createContracts k f tbl rows = Inr tbl' \<Longrightarrow> n \<le> length tbl \<Longrightarrow>
   n \<le> length tbl' \<and> map erase_codeId (take n tbl') = map erase_codeId (take n tbl)"
proof (induction k f tbl rows rule: createContracts.induct)
  case (1 failures tbl rows)
  then show ?case by simp
next
  case (2 attempts failures tbl err)
  then show ?case by (auto split: if_splits)
next
  case (3 attempts tbl rows)
  then show ?case using Contract_bulkCreate_frame [of n tbl rows] by auto
next
  case (4 attempts failures tbl rows)
  then show ?case by (auto split: if_splits)
qed

lemma queueWebhooks_frame:
  "queueWebhooks gp ws d es = Inr (d', k) \<Longrightarrow>
   db_contracts d' = db_contracts d \<and> db_events d' = db_events d
   \<and> db_nextEventId d' = db_nextEventId d \<and> db_state d' = db_state d
   \<and> (\<exists>rows. db_pendingWebhooks d' = db_pendingWebhooks d @ rows \<and> length rows = k)"
  by (auto simp: queueWebhooks_def PendingWebhook_bulkCreate_def split: if_splits sum.splits)

lemma exporter_contracts:
  "db_contracts (fst (exporter en d parsed b1 b2)) = db_contracts d
   \<or> (\<exists>tbl'. createContracts 3 (bulkCreateFailures en d) (db_contracts d)
              (contractRows parsed (Set_values (map pe_contractAddress parsed))) = Inr tbl'
        \<and> db_contracts (fst (exporter en d parsed b1 b2)) = tbl')"
  by (auto simp: exporter_def exportEvents_def updateCheckpoint_def Let_def
      split: option.splits sum.splits prod.splits dest!: queueWebhooks_frame)

lemma exporter_frame:
  assumes "n \<le> length (db_contracts d)"
  shows "n \<le> length (db_contracts (fst (exporter en d parsed b1 b2)))
   \<and> map erase_codeId (take n (db_contracts (fst (exporter en d parsed b1 b2))))
       = map erase_codeId (take n (db_contracts d))"
  using exporter_contracts [of en d parsed b1 b2] assms
  by (auto dest: createContracts_frame)

lemma exports_frame:
  "n \<le> length (db_contracts d) \<Longrightarrow>
   n \<le> length (db_contracts (exports en b1 b2 d batches))
   \<and> map erase_codeId (take n (db_contracts (exports en b1 b2 d batches)))
       = map erase_codeId (take n (db_contracts d))"
proof (induction batches arbitrary: d)
  case Nil
  then show ?case by (simp add: exports_def)
next
  case (Cons b batches)
  from exporter_frame [OF Cons.prems, of en b b1 b2]
  have le: "n \<le> length (db_contracts (fst (exporter en d b b1 b2)))"
    and eq: "map erase_codeId (take n (db_contracts (fst (exporter en d b b1 b2))))
             = map erase_codeId (take n (db_contracts d))" by simp_all
  from Cons.IH [OF le] eq show ?case by (simp add: exports_def)
qed

text \<open>
  C5. The contract upsert leaves every row that was in the table where it was and with
  every column but the code id as it was; and so does any sequence of exporter runs,
  whatever their batches and whether they fail: the instantiation columns are written
  when the row is inserted and never afterwards.
\<close>

theorem contract_upsert_writes_codeId_only:
  "map erase_codeId (take (length tbl) (Contract_bulkCreate tbl rows)) = map erase_codeId tbl
   \<and> map erase_codeId
        (take (length (db_contracts d)) (db_contracts (exports en b1 b2 d batches)))
       = map erase_codeId (db_contracts d)"
  using Contract_bulkCreate_frame [of "length tbl" tbl rows]
    exports_frame [of "length (db_contracts d)" d en b1 b2 batches]
  by simp


subsection \<open>Checkpoint\<close>

lemma col_le_refl: "col_le a a"
  by (simp add: col_le_def split: option.splits)

lemma col_le_trans: "col_le a b \<Longrightarrow> col_le b c \<Longrightarrow> col_le a c"
  by (auto simp: col_le_def split: option.splits)

lemma col_le_greatest: "col_le c (sql_greatest c v)"
  by (simp add: col_le_def sql_greatest_def split: option.splits)

lemma state_le_refl: "state_le a a"
  by (simp add: state_le_def checkpoint_le_def col_le_refl split: option.splits)

lemma state_le_trans: "state_le a b \<Longrightarrow> state_le b c \<Longrightarrow> state_le a c"
  by (auto simp: state_le_def checkpoint_le_def split: option.splits intro: col_le_trans)

lemma State_update_le: "State_update st h t = Inr st' \<Longrightarrow> checkpoint_le st st'"
  by (auto simp: State_update_def checkpoint_le_def col_le_greatest split: option.splits)

lemma exporter_state:
  "db_state (fst (exporter en d parsed b1 b2)) = db_state d
   \<or> (\<exists>state lastEvent state'. db_state d = Some state \<and> slice_last parsed = Some lastEvent
        \<and> State_update state (pe_blockHeight lastEvent) (pe_blockTimeUnixMs lastEvent) = Inr state'
        \<and> db_state (fst (exporter en d parsed b1 b2)) = Some state'
        \<and> (\<exists>r. snd (exporter en d parsed b1 b2) = Inr r))"
  by (auto simp: exporter_def exportEvents_def updateCheckpoint_def Let_def
      split: option.splits sum.splits prod.splits dest!: queueWebhooks_frame)

lemma exporter_Inr_state:
  "snd (exporter en d parsed b1 b2) = Inr r \<Longrightarrow>
   \<exists>state lastEvent state'. db_state d = Some state \<and> slice_last parsed = Some lastEvent
        \<and> State_update state (pe_blockHeight lastEvent) (pe_blockTimeUnixMs lastEvent) = Inr state'
        \<and> db_state (fst (exporter en d parsed b1 b2)) = Some state'"
  by (auto simp: exporter_def exportEvents_def updateCheckpoint_def Let_def
      split: option.splits sum.splits prod.splits dest!: queueWebhooks_frame)

lemma exporter_state_le: "state_le (db_state d) (db_state (fst (exporter en d parsed b1 b2)))"
proof -
  from exporter_state [of en d parsed b1 b2] show ?thesis
  proof
    assume "db_state (fst (exporter en d parsed b1 b2)) = db_state d"
    then show ?thesis by (simp add: state_le_refl)
  next
    assume "\<exists>state lastEvent state'. db_state d = Some state \<and> slice_last parsed = Some lastEvent
        \<and> State_update state (pe_blockHeight lastEvent) (pe_blockTimeUnixMs lastEvent) = Inr state'
        \<and> db_state (fst (exporter en d parsed b1 b2)) = Some state'
        \<and> (\<exists>r. snd (exporter en d parsed b1 b2) = Inr r)"
    then show ?thesis by (auto simp: state_le_def dest: State_update_le)
  qed
qed

lemma exports_append:
  "exports en b1 b2 d (bs @ cs) = exports en b1 b2 (exports en b1 b2 d bs) cs"
  by (simp add: exports_def)

lemma exports_state_le: "state_le (db_state d) (db_state (exports en b1 b2 d batches))"
proof (induction batches arbitrary: d)
  case Nil
  then show ?case by (simp add: exports_def state_le_refl)
next
  case (Cons b batches)
  have "state_le (db_state d) (db_state (fst (exporter en d b b1 b2)))"
    by (rule exporter_state_le)
  moreover have "state_le (db_state (fst (exporter en d b b1 b2)))
      (db_state (exports en b1 b2 (fst (exporter en d b b1 b2)) batches))"
    by (rule Cons.IH)
  ultimately show ?case by (auto simp: exports_def intro: state_le_trans)
qed

lemma digit_val_digit_char: "d < 10 \<Longrightarrow> digit_val (digit_char d) = Some d"
proof -
  assume "d < 10"
  then have "d \<in> {0,1,2,3,4,5,6,7,8,9}" by auto
  then show ?thesis
    by (auto simp: digit_val_def digit_char_def decimal_digits_def)
qed

lemma read_digits_append:
  "read_digits acc (xs @ ys) = (case read_digits acc xs of None \<Rightarrow> None | Some a \<Rightarrow> read_digits a ys)"
  by (induction xs arbitrary: acc) (auto split: option.splits)

lemma read_digits_show_nat: "read_digits 0 (show_nat n) = Some n"
proof (induction n rule: show_nat.induct)
  case (1 n)
  show ?case
  proof (cases "n < 10")
    case True
    then show ?thesis by (subst show_nat.simps) (simp add: digit_val_digit_char)
  next
    case False
    with 1 have "read_digits 0 (show_nat (n div 10)) = Some (n div 10)" by simp
    with False show ?thesis
      by (subst show_nat.simps) (simp add: read_digits_append digit_val_digit_char)
  qed
qed

lemma show_nat_nonempty: "show_nat n \<noteq> []"
  by (subst show_nat.simps) simp

lemma read_nat_show_nat: "read_nat (show_nat n) = Some n"
  by (simp add: read_nat_def show_nat_nonempty read_digits_show_nat)

lemma slice_last_map:
  "slice_last (map f xs) = Some y \<Longrightarrow> xs \<noteq> [] \<and> y = f (last xs)"
  by (cases xs rule: rev_cases) (auto simp: slice_last_def)

lemma flush_db:
  "snd (fst (flush cd en opts md)) = snd md
   \<or> snd (fst (flush cd en opts md))
       = fst (exporter en (snd md) (parsedEvents cd (pending (fst md)))
               (\<not> opt_updateComputations opts) (\<not> opt_sendWebhooks opts))"
  by (auto simp: flush_def split: prod.splits sum.splits)

lemma flush_state_le: "state_le (db_state (snd md)) (db_state (snd (fst (flush cd en opts md))))"
  using flush_db [of cd en opts md] by (auto simp: state_le_refl exporter_state_le)

lemma handler_state_le:
  "state_le (db_state (snd md)) (db_state (snd (fst (handler cd en opts md line))))"
proof (cases line)
  case None
  then show ?thesis by (simp add: handler_def state_le_refl)
next
  case (Some event)
  define m1 where "m1 = (if catchingUp (fst md) then (fst md)\<lparr>catchingUp := False\<rparr> else fst md)"
  obtain m2 d2 res where f: "flush cd en opts (m1, snd md) = ((m2, d2), res)"
    by (metis prod.exhaust)
  have "state_le (db_state (snd md)) (db_state d2)"
    using flush_state_le [of "(m1, snd md)" cd en opts] f by simp
  with Some f show ?thesis
    by (cases res) (auto simp: handler_def Let_def m1_def state_le_refl)
qed

lemma run_state_le: "state_le (db_state (snd md)) (db_state (snd (fst (run cd en opts md lines))))"
proof (induction lines arbitrary: md)
  case Nil
  show ?case using flush_state_le [of md cd en opts]
    by (auto split: prod.splits sum.splits)
next
  case (Cons line lines)
  obtain md' res where h: "handler cd en opts md line = (md', res)" by (cases "handler cd en opts md line")
  have 1: "state_le (db_state (snd md)) (db_state (snd md'))"
    using handler_state_le [of md cd en opts line] h by simp
  have 2: "state_le (db_state (snd md')) (db_state (snd (fst (run cd en opts md' lines))))"
    by (rule Cons.IH)
  show ?case
  proof (cases res)
    case (Inl e)
    with h 1 show ?thesis by simp
  next
    case (Inr b)
    with h 1 2 show ?thesis
      by (cases b) (auto split: prod.splits intro: state_le_trans)
  qed
qed

lemma flush_checkpoint:
  assumes "pending m \<noteq> []" and "snd (flush cd en opts (m, d)) = Inr batch"
  shows "\<exists>s. db_state d = Some s \<and> batch \<noteq> []
     \<and> db_state (snd (fst (flush cd en opts (m, d)))) =
         Some \<lparr>st_lastWasmBlockHeightExported =
                  sql_greatest (st_lastWasmBlockHeightExported s) (ie_blockHeight (last batch)),
               st_latestBlockHeight =
                  sql_greatest (st_latestBlockHeight s) (ie_blockHeight (last batch)),
               st_latestBlockTimeUnixMs =
                  sql_greatest (st_latestBlockTimeUnixMs s) (ie_blockTimeUnixMs (last batch))\<rparr>"
proof -
  let ?ex = "exporter en d (parsedEvents cd (pending m))
               (\<not> opt_updateComputations opts) (\<not> opt_sendWebhooks opts)"
  from assms obtain r where r: "snd ?ex = Inr r" and b: "batch = eventsToExport (pending m)"
    and d': "snd (fst (flush cd en opts (m, d))) = fst ?ex"
    by (auto simp: flush_def split: prod.splits sum.splits)
  from exporter_Inr_state [OF r] obtain state lastEvent state' where
    s: "db_state d = Some state" and l: "slice_last (parsedEvents cd (pending m)) = Some lastEvent"
    and u: "State_update state (pe_blockHeight lastEvent) (pe_blockTimeUnixMs lastEvent) = Inr state'"
    and f: "db_state (fst ?ex) = Some state'" by blast
  from l b have ne: "batch \<noteq> []" and le: "lastEvent = parseEvent cd (last batch)"
    using slice_last_map [of "parseEvent cd" "eventsToExport (pending m)" lastEvent]
    by (simp_all add: parsedEvents_def)
  have h: "pe_blockHeight lastEvent = show_nat (ie_blockHeight (last batch))"
    and t: "pe_blockTimeUnixMs lastEvent = show_nat (ie_blockTimeUnixMs (last batch))"
    by (simp_all add: le parseEvent_def Let_def)
  from u have "state' =
      \<lparr>st_lastWasmBlockHeightExported =
          sql_greatest (st_lastWasmBlockHeightExported state) (ie_blockHeight (last batch)),
       st_latestBlockHeight = sql_greatest (st_latestBlockHeight state) (ie_blockHeight (last batch)),
       st_latestBlockTimeUnixMs =
          sql_greatest (st_latestBlockTimeUnixMs state) (ie_blockTimeUnixMs (last batch))\<rparr>"
    by (simp add: State_update_def h t read_nat_show_nat)
  with s ne f d' show ?thesis by simp
qed

text \<open>
  C7. The three checkpoint columns never decrease: not over any sequence of exporter
  runs, not over the run of any stream; and a flush of a non-empty queue that returns
  has set each of them to the greatest of its stored value and the value of the last
  record of the flushed batch.
\<close>

theorem checkpoint_never_decreases:
  "state_le (db_state (exports en b1 b2 d bs)) (db_state (exports en b1 b2 d (bs @ cs)))
   \<and> state_le (db_state d) (db_state (snd (fst (run cd en opts (m, d) lines))))
   \<and> (pending m \<noteq> [] \<and> snd (flush cd en opts (m, d)) = Inr batch \<longrightarrow>
        (\<exists>s. db_state d = Some s \<and> batch \<noteq> []
           \<and> db_state (snd (fst (flush cd en opts (m, d)))) =
               Some \<lparr>st_lastWasmBlockHeightExported =
                        sql_greatest (st_lastWasmBlockHeightExported s) (ie_blockHeight (last batch)),
                     st_latestBlockHeight =
                        sql_greatest (st_latestBlockHeight s) (ie_blockHeight (last batch)),
                     st_latestBlockTimeUnixMs =
                        sql_greatest (st_latestBlockTimeUnixMs s)
                          (ie_blockTimeUnixMs (last batch))\<rparr>))"
  using exports_state_le [of "exports en b1 b2 d bs" en b1 b2 cs]
    run_state_le [of "(m, d)" cd en opts lines] flush_checkpoint [of m cd en opts d batch]
  by (simp add: exports_append)

lemma flush_A7:
  "flush codecs_A env_one_hook options_A (wasm_init\<lparr>pending := [record_A7]\<rparr>, db_fresh)
   = ((wasm_init,
       \<lparr>db_state = Some \<lparr>st_lastWasmBlockHeightExported = Some 7, st_latestBlockHeight = Some 9,
                           st_latestBlockTimeUnixMs = Some 7000\<rparr>,
        db_contracts =
          [\<lparr>ct_address = ''A'', ct_codeId = 1, ct_instantiatedAtBlockHeight = ''7'',
            ct_instantiatedAtBlockTimeUnixMs = ''7000'', ct_instantiatedAtBlockTimestamp = 7000\<rparr>],
        db_events =
          [\<lparr>we_id = 1, we_contractAddress = ''A'', we_blockHeight = ''7'',
            we_blockTimeUnixMs = ''7000'', we_blockTimestamp = 7000, we_key = ''107,49'',
            we_value = ''10'', we_valueJson = JNum 10, we_delete = False, we_contract = None\<rparr>],
        db_nextEventId = 2,
        db_pendingWebhooks =
          [\<lparr>pw_eventId = 1, pw_endpoint = Soketi ''changes'' ''update'',
            pw_value = JObj [(''from'', JNull), (''to'', JNum 10)], pw_failures = 0\<rparr>]\<rparr>),
      Inr [record_A7])"
  by (simp add: flush_eval exporter_eval wasm_init_def record_A7_def codecs_A_def options_A_def
      env_one_hook_def hook_change_def db_fresh_def)

theorem checkpoint_never_decreases_witness:
  "pending (wasm_init\<lparr>pending := [record_A7]\<rparr>) \<noteq> []
   \<and> snd (flush codecs_A env_one_hook options_A (wasm_init\<lparr>pending := [record_A7]\<rparr>, db_fresh))
       = Inr [record_A7]
   \<and> db_state db_fresh =
       Some \<lparr>st_lastWasmBlockHeightExported = Some 3, st_latestBlockHeight = Some 9,
             st_latestBlockTimeUnixMs = None\<rparr>
   \<and> db_state (snd (fst (flush codecs_A env_one_hook options_A
         (wasm_init\<lparr>pending := [record_A7]\<rparr>, db_fresh))))
       = Some \<lparr>st_lastWasmBlockHeightExported = Some 7, st_latestBlockHeight = Some 9,
               st_latestBlockTimeUnixMs = Some 7000\<rparr>"
proof -
  have p: "pending (wasm_init\<lparr>pending := [record_A7]\<rparr>) \<noteq> []" by simp
  have f: "snd (flush codecs_A env_one_hook options_A (wasm_init\<lparr>pending := [record_A7]\<rparr>, db_fresh))
       = Inr [record_A7]" by (simp add: flush_A7)
  from checkpoint_never_decreases [of env_one_hook False False db_fresh "[]" "[]" codecs_A
      options_A "wasm_init\<lparr>pending := [record_A7]\<rparr>" "[]" "[record_A7]"] p f
  show ?thesis
    by (simp add: db_fresh_def sql_greatest_def record_A7_def)
qed


subsection \<open>Block boundaries\<close>

lemma object_set_values: "snd ` set (object_set obj k v) \<subseteq> insert v (snd ` set obj)"
proof (induction obj)
  case Nil
  then show ?case by simp
next
  case (Cons p obj)
  then show ?case by (cases p) (auto split: if_splits)
qed

lemma uniqueIndexerEvents_values_aux:
  "snd ` set (foldl (\<lambda>acc event. object_set acc (f event) event) acc xs) \<subseteq> snd ` set acc \<union> set xs"
proof (induction xs arbitrary: acc)
  case Nil
  then show ?case by simp
next
  case (Cons x xs)
  from Cons.IH [of "object_set acc (f x) x"] object_set_values [of acc "f x" x]
  show ?case by auto
qed

lemma Object_values_subset: "set (Object_values obj) \<subseteq> snd ` set obj"
  by (auto simp: Object_values_def)

lemma eventsToExport_subset: "set (eventsToExport queue) \<subseteq> set queue"
  using Object_values_subset [of "uniqueIndexerEvents queue"]
    uniqueIndexerEvents_values_aux [of dedup_key "[]" queue]
  by (auto simp: eventsToExport_def uniqueIndexerEvents_def)

lemma flush_Inr:
  assumes "flush cd en opts (m1, d) = ((m2, d2), Inr batch)"
  shows "pending m2 = [] \<and> lastBlockHeightSeen m2 = lastBlockHeightSeen m1
         \<and> set batch \<subseteq> set (pending m1)"
  using assms eventsToExport_subset [of "pending m1"]
  by (auto simp: flush_def split: if_splits prod.splits sum.splits)

lemma handler_invokes_flush:
  "snd (handler cd en opts (m, d) line) \<noteq> Inr None \<Longrightarrow>
   \<exists>event. line = Some event \<and> opt_batch opts \<le> length (pending m)
     \<and> lastBlockHeightSeen m < ie_blockHeight event"
  by (auto simp: handler_def Let_def split: option.splits if_splits prod.splits sum.splits)

lemma run_blocks:
  assumes "\<forall>e\<in>set (pending m). ie_blockHeight e \<le> lastBlockHeightSeen m"
    and "\<forall>e\<in>set (stream_records lines). lastBlockHeightSeen m \<le> ie_blockHeight e"
    and "sorted (map ie_blockHeight (stream_records lines))"
  shows "sorted_wrt blocks_before (fst (snd (run cd en opts (m, d) lines)))
     \<and> (\<forall>B\<in>set (fst (snd (run cd en opts (m, d) lines))).
           set B \<subseteq> set (pending m) \<union> set (stream_records lines))"
  using assms
proof (induction lines arbitrary: m d)
  case Nil
  obtain m2 d2 res where f: "flush cd en opts (m, d) = ((m2, d2), res)" by (metis prod.exhaust)
  show ?case
  proof (cases res)
    case (Inl e)
    with f show ?thesis by simp
  next
    case (Inr batch)
    with f flush_Inr [of cd en opts m d m2 d2 batch] show ?thesis by auto
  qed
next
  case (Cons line lines)
  show ?case
  proof (cases line)
    case None
    have "handler cd en opts (m, d) None = ((m, d), Inr None)" by (simp add: handler_def)
    with None Cons.IH [of m d] Cons.prems show ?thesis by (simp add: stream_records_def)
  next
    case (Some event)
    have rec: "stream_records (line # lines) = event # stream_records lines"
      by (simp add: Some stream_records_def)
    from Cons.prems(2) rec have lo: "lastBlockHeightSeen m \<le> ie_blockHeight event" by simp
    from Cons.prems(3) rec have rest: "\<forall>e\<in>set (stream_records lines). ie_blockHeight event \<le> ie_blockHeight e"
      and srt: "sorted (map ie_blockHeight (stream_records lines))" by simp_all
    from Cons.prems(1) lo have pend: "\<forall>e\<in>set (pending m). ie_blockHeight e \<le> ie_blockHeight event"
      by fastforce
    define m1 where "m1 = (if catchingUp m then m\<lparr>catchingUp := False\<rparr> else m)"
    have m1: "pending m1 = pending m" "lastBlockHeightSeen m1 = lastBlockHeightSeen m"
      by (simp_all add: m1_def)
    show ?thesis
    proof (cases "ie_blockHeight event < initialBlock opts")
      case True
      let ?m' = "m\<lparr>lastBlockHeightSeen := ie_blockHeight event\<rparr>"
      have h: "handler cd en opts (m, d) line = ((?m', d), Inr None)"
        using True Some by (simp add: handler_def)
      from Cons.IH [of ?m' d] pend rest srt h rec show ?thesis by auto
    next
      case False
      show ?thesis
      proof (cases "opt_batch opts \<le> length (pending m1) \<and> lastBlockHeightSeen m1 < ie_blockHeight event")
        case noflush: False
        let ?m' = "m1\<lparr>pending := pending m1 @ [event], lastBlockHeightSeen := ie_blockHeight event\<rparr>"
        have h: "handler cd en opts (m, d) line = ((?m', d), Inr None)"
          using False noflush Some by (auto simp: handler_def Let_def m1_def)
        have "\<forall>e\<in>set (pending ?m'). ie_blockHeight e \<le> lastBlockHeightSeen ?m'"
          using pend m1 by simp
        from Cons.IH [of ?m' d, OF this] rest srt h rec m1 show ?thesis by auto
      next
        case doflush: True
        obtain m2 d2 res where f: "flush cd en opts (m1, d) = ((m2, d2), res)" by (metis prod.exhaust)
        show ?thesis
        proof (cases res)
          case (Inl e)
          with f False doflush Some have "handler cd en opts (m, d) line = ((m2, d2), Inl e)"
            by (auto simp: handler_def Let_def m1_def)
          then show ?thesis by simp
        next
          case (Inr batch)
          let ?m' = "m2\<lparr>pending := pending m2 @ [event], lastBlockHeightSeen := ie_blockHeight event\<rparr>"
          from f Inr False doflush Some
          have h: "handler cd en opts (m, d) line = ((?m', d2), Inr (Some batch))"
            by (auto simp: handler_def Let_def m1_def)
          from flush_Inr [of cd en opts m1 d m2 d2 batch] f Inr m1
          have p2: "pending m2 = []" and sub: "set batch \<subseteq> set (pending m)" by simp_all
          have inv: "\<forall>e\<in>set (pending ?m'). ie_blockHeight e \<le> lastBlockHeightSeen ?m'"
            using p2 by simp
          from Cons.IH [of ?m' d2, OF inv] rest srt
          have s': "sorted_wrt blocks_before (fst (snd (run cd en opts (?m', d2) lines)))"
            and in': "\<forall>B\<in>set (fst (snd (run cd en opts (?m', d2) lines))).
                 set B \<subseteq> set (pending ?m') \<union> set (stream_records lines)" by simp_all
          have lt: "\<forall>a\<in>set batch. ie_blockHeight a < ie_blockHeight event"
            using sub Cons.prems(1) doflush m1 by fastforce
          have before: "\<forall>B\<in>set (fst (snd (run cd en opts (?m', d2) lines))). blocks_before batch B"
          proof
            fix B assume B: "B \<in> set (fst (snd (run cd en opts (?m', d2) lines)))"
            show "blocks_before batch B"
              unfolding blocks_before_def
            proof (intro ballI)
              fix a b assume a: "a \<in> set batch" and b: "b \<in> set B"
              from in' B b p2 have "b = event \<or> b \<in> set (stream_records lines)" by auto
              with rest have "ie_blockHeight event \<le> ie_blockHeight b" by auto
              with lt a show "ie_blockHeight a < ie_blockHeight b" by fastforce
            qed
          qed
          have log: "fst (snd (run cd en opts (m, d) (line # lines)))
                     = batch # fst (snd (run cd en opts (?m', d2) lines))"
            using h by (simp split: prod.splits)
          from s' before in' sub p2 rec show ?thesis
            unfolding log by auto
        qed
      qed
    qed
  qed
qed

text \<open>
  C3. The handler invokes flush only when the queue holds at least \<open>batch\<close> records and
  the block height of the incoming record exceeds the last height seen. On a stream whose
  records come in non-decreasing block order, read from the start, any two batches
  exported by different flushes (those of the handler and the one at the end of the
  stream) are blocks apart: every record of the earlier batch has a lower block height
  than every record of the later one.
\<close>

theorem flush_at_block_boundary:
  "(snd (handler cd en opts (m, d) line) \<noteq> Inr None \<longrightarrow>
      (\<exists>event. line = Some event \<and> opt_batch opts \<le> length (pending m)
         \<and> lastBlockHeightSeen m < ie_blockHeight event))
   \<and> (sorted (map ie_blockHeight (stream_records lines)) \<and> i < j
        \<and> j < length (fst (snd (run cd en opts (wasm_init, d') lines))) \<longrightarrow>
      blocks_before (fst (snd (run cd en opts (wasm_init, d') lines)) ! i)
        (fst (snd (run cd en opts (wasm_init, d') lines)) ! j))"
proof (intro conjI impI)
  assume "snd (handler cd en opts (m, d) line) \<noteq> Inr None"
  then show "\<exists>event. line = Some event \<and> opt_batch opts \<le> length (pending m)
         \<and> lastBlockHeightSeen m < ie_blockHeight event"
    by (rule handler_invokes_flush)
next
  assume a: "sorted (map ie_blockHeight (stream_records lines)) \<and> i < j
        \<and> j < length (fst (snd (run cd en opts (wasm_init, d') lines)))"
  have "sorted_wrt blocks_before (fst (snd (run cd en opts (wasm_init, d') lines)))"
    using run_blocks [of wasm_init lines cd en opts d'] a by (simp add: wasm_init_def)
  with a show "blocks_before (fst (snd (run cd en opts (wasm_init, d') lines)) ! i)
        (fst (snd (run cd en opts (wasm_init, d') lines)) ! j)"
    by (simp add: sorted_wrt_iff_nth_less)
qed

lemma export_A5: "eventsToExport [record_A5, record_A5_delete] = [record_A5, record_A5_delete]"
  by (simp add: dedup_eval record_A5_def record_A5_delete_def)

lemma export_A6: "eventsToExport [record_A6] = [record_A6]"
  by (simp add: dedup_eval record_A6_def)

lemma exporter_A5:
  "exporter env_one_hook db_fresh [parseEvent codecs_A record_A5, parseEvent codecs_A record_A5_delete] False True
     = (db_after_5, Inr \<lparr>er_webhooksQueued = 0, er_lastBlockHeightExported = 5\<rparr>)"
  by (simp add: parse_eval codecs_A_def record_A5_def record_A5_delete_def
      exporter_eval env_one_hook_def db_fresh_def db_after_5_def)

lemma exporter_A6:
  "snd (exporter env_one_hook db_after_5 [parseEvent codecs_A record_A6] False True)
     = Inr \<lparr>er_webhooksQueued = 0, er_lastBlockHeightExported = 6\<rparr>"
  by (simp add: parse_eval codecs_A_def record_A6_def
      exporter_eval env_one_hook_def db_after_5_def)

lemma flush_A5:
  "flush codecs_A env_one_hook options_batch1
     (\<lparr>pending = [record_A5, record_A5_delete], lastBlockHeightSeen = 5, catchingUp = False\<rparr>, db_fresh)
   = ((\<lparr>pending = [], lastBlockHeightSeen = 5, catchingUp = False\<rparr>, db_after_5),
      Inr [record_A5, record_A5_delete])"
  by (simp add: flush_def parsedEvents_def export_A5 exporter_A5 options_batch1_def options_A_def)

lemma flush_A6:
  "snd (flush codecs_A env_one_hook options_batch1
     (\<lparr>pending = [record_A6], lastBlockHeightSeen = 6, catchingUp = False\<rparr>, db_after_5))
   = Inr [record_A6]"
proof -
  obtain d' where "exporter env_one_hook db_after_5 [parseEvent codecs_A record_A6] False True
     = (d', Inr \<lparr>er_webhooksQueued = 0, er_lastBlockHeightExported = 6\<rparr>)"
    using exporter_A6 by (metis prod.collapse)
  then show ?thesis
    by (simp add: flush_def parsedEvents_def export_A6 options_batch1_def options_A_def)
qed

lemma handler_A6:
  "handler codecs_A env_one_hook options_batch1
     (\<lparr>pending = [record_A5, record_A5_delete], lastBlockHeightSeen = 5, catchingUp = False\<rparr>, db_fresh)
     (Some record_A6)
   = ((\<lparr>pending = [record_A6], lastBlockHeightSeen = 6, catchingUp = False\<rparr>, db_after_5),
      Inr (Some [record_A5, record_A5_delete]))"
proof -
  have g: "ie_blockHeight record_A6 = 6" by (simp add: record_A6_def)
  have i: "initialBlock options_batch1 = 4"
    by (simp add: initialBlock_def options_batch1_def options_A_def)
  have b: "opt_batch options_batch1 = 1" by (simp add: options_batch1_def)
  show ?thesis by (simp add: handler_def g i b flush_A5)
qed


lemma run_stream_56:
  "fst (snd (run codecs_A env_one_hook options_batch1 (wasm_init, db_fresh) stream_56))
     = [[record_A5, record_A5_delete], [record_A6]]"
proof -
  have i: "initialBlock options_batch1 = 4"
    by (simp add: initialBlock_def options_batch1_def options_A_def)
  have b: "opt_batch options_batch1 = 1" by (simp add: options_batch1_def)
  have g: "ie_blockHeight record_A5 = 5" "ie_blockHeight record_A5_delete = 5"
    by (simp_all add: record_A5_def record_A5_delete_def)
  have h1: "handler codecs_A env_one_hook options_batch1 (wasm_init, db_fresh) (Some record_A5)
      = ((\<lparr>pending = [record_A5], lastBlockHeightSeen = 5, catchingUp = False\<rparr>, db_fresh), Inr None)"
    by (simp add: handler_def i b g wasm_init_def)
  have h2: "handler codecs_A env_one_hook options_batch1
       (\<lparr>pending = [record_A5], lastBlockHeightSeen = 5, catchingUp = False\<rparr>, db_fresh)
       (Some record_A5_delete)
      = ((\<lparr>pending = [record_A5, record_A5_delete], lastBlockHeightSeen = 5, catchingUp = False\<rparr>,
          db_fresh), Inr None)"
    by (simp add: handler_def i b g)
  have h3: "handler codecs_A env_one_hook options_batch1 md None = (md, Inr None)" for md
    by (simp add: handler_def)
  obtain md' where f: "flush codecs_A env_one_hook options_batch1
     (\<lparr>pending = [record_A6], lastBlockHeightSeen = 6, catchingUp = False\<rparr>, db_after_5)
     = (md', Inr [record_A6])"
    using flush_A6 by (metis prod.collapse)
  show ?thesis
    by (simp add: stream_56_def h1 h2 h3 handler_A6 f)
qed

theorem flush_at_block_boundary_witness:
  "snd (handler codecs_A env_one_hook options_batch1
         (\<lparr>pending = [record_A5, record_A5_delete], lastBlockHeightSeen = 5, catchingUp = False\<rparr>,
          db_fresh) (Some record_A6)) \<noteq> Inr None
   \<and> sorted (map ie_blockHeight (stream_records stream_56))
   \<and> fst (snd (run codecs_A env_one_hook options_batch1 (wasm_init, db_fresh) stream_56))
       = [[record_A5, record_A5_delete], [record_A6]]
   \<and> blocks_before [record_A5, record_A5_delete] [record_A6]"
proof -
  have h: "snd (handler codecs_A env_one_hook options_batch1
         (\<lparr>pending = [record_A5, record_A5_delete], lastBlockHeightSeen = 5, catchingUp = False\<rparr>,
          db_fresh) (Some record_A6)) \<noteq> Inr None"
    by (simp add: handler_A6)
  have s: "sorted (map ie_blockHeight (stream_records stream_56))"
    by (simp add: stream_records_def stream_56_def record_A5_def record_A5_delete_def record_A6_def)
  from flush_at_block_boundary [of codecs_A env_one_hook options_batch1
      "\<lparr>pending = [record_A5, record_A5_delete], lastBlockHeightSeen = 5, catchingUp = False\<rparr>"
      db_fresh "Some record_A6" stream_56 0 1 db_fresh] h s
  show ?thesis by (simp add: run_stream_56)
qed

subsection \<open>Upserting the same events again\<close>

lemma onDup_key: "same_event_key q (WasmEvent_onDuplicate p row) = same_event_key q row"
  by (simp add: WasmEvent_onDuplicate_def updateOnDuplicate_def same_event_key_def)

lemma onDup_override:
  "same_event_key q row \<Longrightarrow> WasmEvent_onDuplicate q (WasmEvent_onDuplicate p row) = WasmEvent_onDuplicate q row"
  by (simp add: WasmEvent_onDuplicate_def updateOnDuplicate_def same_event_key_def)

lemma onDup_other:
  "\<not> same_event_key q row \<Longrightarrow> WasmEvent_onDuplicate q row = row"
  by (simp add: WasmEvent_onDuplicate_def)

lemma onDup_new: "WasmEvent_onDuplicate p (new_event_row n p) = new_event_row n p"
  by (simp add: WasmEvent_onDuplicate_def updateOnDuplicate_def new_event_row_def)

lemma new_row_key: "same_event_key p (new_event_row n p)"
  by (simp add: same_event_key_def new_event_row_def)


lemma upsert_keeps_present:
  "list_ex (same_event_key q) (fst tn) \<Longrightarrow> list_ex (same_event_key q) (fst (WasmEvent_upsert tn p))"
  by (auto simp: WasmEvent_upsert_def list_ex_iff onDup_key)

lemma upsert_makes_present: "list_ex (same_event_key p) (fst (WasmEvent_upsert tn p))"
  by (auto simp: WasmEvent_upsert_def list_ex_iff onDup_key new_row_key)

lemma bulk_keeps_present:
  "list_ex (same_event_key q) (fst tn) \<Longrightarrow> list_ex (same_event_key q) (fst (foldl WasmEvent_upsert tn ps))"
  by (induction ps arbitrary: tn) (simp_all add: upsert_keeps_present)


lemma fold_onDup_unmatched:
  "\<forall>q\<in>set ps. \<not> same_event_key q row \<Longrightarrow> fold WasmEvent_onDuplicate ps row = row"
  by (induction ps) (simp_all add: onDup_other)


lemma upsert_unmatched_row_old:
  "row \<in> set (fst (WasmEvent_upsert tn q)) \<Longrightarrow> \<not> same_event_key q row \<Longrightarrow> row \<in> set (fst tn)"
proof -
  assume r: "row \<in> set (fst (WasmEvent_upsert tn q))" and n: "\<not> same_event_key q row"
  show ?thesis
  proof (cases "list_ex (same_event_key q) (fst tn)")
    case True
    with r obtain old where o: "old \<in> set (fst tn)" and e: "row = WasmEvent_onDuplicate q old"
      by (auto simp: WasmEvent_upsert_def)
    from n e have "\<not> same_event_key q old" by (simp add: onDup_key)
    with e o show ?thesis by (simp add: onDup_other)
  next
    case False
    with r n show ?thesis by (auto simp: WasmEvent_upsert_def new_row_key)
  qed
qed

lemma bulk_unmatched_row_old:
  "row \<in> set (fst (foldl WasmEvent_upsert tn ps)) \<Longrightarrow> \<forall>q\<in>set ps. \<not> same_event_key q row \<Longrightarrow>
   row \<in> set (fst tn)"
proof (induction ps arbitrary: tn)
  case Nil
  then show ?case by simp
next
  case (Cons q ps)
  from Cons.IH [of "WasmEvent_upsert tn q"] Cons.prems
  have "row \<in> set (fst (WasmEvent_upsert tn q))" by simp
  with Cons.prems show ?case by (auto dest: upsert_unmatched_row_old)
qed

lemma upsert_matched_row_settled:
  "row \<in> set (fst (WasmEvent_upsert tn p)) \<Longrightarrow> same_event_key p row \<Longrightarrow>
   WasmEvent_onDuplicate p row = row"
proof -
  assume r: "row \<in> set (fst (WasmEvent_upsert tn p))" and m: "same_event_key p row"
  show ?thesis
  proof (cases "list_ex (same_event_key p) (fst tn)")
    case True
    with r obtain old where e: "row = WasmEvent_onDuplicate p old"
      by (auto simp: WasmEvent_upsert_def)
    from m e have "same_event_key p old" by (simp add: onDup_key)
    with e show ?thesis by (simp add: onDup_override)
  next
    case False
    with r m show ?thesis by (auto simp: WasmEvent_upsert_def list_ex_iff onDup_new)
  qed
qed



subsection \<open>Upserting the same contracts again\<close>
















subsection \<open>Writing the same checkpoint again\<close>



subsection \<open>The steps of the exporter\<close>

lemma createContracts_Inr:
  "createContracts (Suc k) f tbl (Inr rows) = Inr t \<Longrightarrow> t = Contract_bulkCreate tbl rows"
proof (induction k arbitrary: f)
  case 0
  then show ?case by (cases f) simp_all
next
  case (Suc k)
  then show ?case by (cases f) simp_all
qed

lemma createContracts_Inl: "createContracts (Suc k) f tbl (Inl e) \<noteq> Inr t"
  by (induction k) simp_all

lemma createContracts_3:
  "createContracts 3 f tbl rows = Inr t \<Longrightarrow> \<exists>rs. rows = Inr rs \<and> t = Contract_bulkCreate tbl rs"
  using createContracts_Inr [of 2 f tbl _ t] createContracts_Inl [of 2 f tbl _ t]
  by (cases rows) (simp_all add: numeral_3_eq_3)

lemma updateCheckpoint_Inr:
  "snd (updateCheckpoint state d2 n parsed) = Inr r \<Longrightarrow>
   \<exists>lastEvent state'. slice_last parsed = Some lastEvent
     \<and> State_update state (pe_blockHeight lastEvent) (pe_blockTimeUnixMs lastEvent) = Inr state'
     \<and> fst (updateCheckpoint state d2 n parsed) = d2\<lparr>db_state := Some state'\<rparr>"
  by (auto simp: updateCheckpoint_def split: option.splits sum.splits)

lemma updateCheckpoint_tables:
  "db_contracts (fst (updateCheckpoint state d2 n parsed)) = db_contracts d2
   \<and> db_events (fst (updateCheckpoint state d2 n parsed)) = db_events d2
   \<and> db_nextEventId (fst (updateCheckpoint state d2 n parsed)) = db_nextEventId d2
   \<and> db_pendingWebhooks (fst (updateCheckpoint state d2 n parsed)) = db_pendingWebhooks d2"
  by (auto simp: updateCheckpoint_def split: option.splits sum.splits)

lemma exportEvents_tables:
  "db_contracts (fst (exportEvents en state d ct parsed b2)) = ct
   \<and> db_events (fst (exportEvents en state d ct parsed b2))
       = fst (WasmEvent_bulkCreate (db_events d, db_nextEventId d) parsed)
   \<and> db_nextEventId (fst (exportEvents en state d ct parsed b2))
       = snd (WasmEvent_bulkCreate (db_events d, db_nextEventId d) parsed)
   \<and> (\<exists>pw. db_pendingWebhooks (fst (exportEvents en state d ct parsed b2)) = db_pendingWebhooks d @ pw
         \<and> (b2 \<longrightarrow> pw = []))"
  by (auto simp: exportEvents_def Let_def updateCheckpoint_tables
      split: sum.splits prod.splits dest!: queueWebhooks_frame)

lemma exportEvents_Inr:
  "snd (exportEvents en state d ct parsed b2) = Inr r \<Longrightarrow>
   \<exists>lastEvent state'. slice_last parsed = Some lastEvent
     \<and> State_update state (pe_blockHeight lastEvent) (pe_blockTimeUnixMs lastEvent) = Inr state'
     \<and> db_state (fst (exportEvents en state d ct parsed b2)) = Some state'"
  by (auto simp: exportEvents_def Let_def split: sum.splits prod.splits if_splits
      dest!: updateCheckpoint_Inr)

lemma exporter_Inr_form:
  assumes "snd (exporter en d parsed b1 b2) = Inr r"
  shows "\<exists>state rows lastEvent state'.
     db_state d = Some state
     \<and> contractRows parsed (Set_values (map pe_contractAddress parsed)) = Inr rows
     \<and> slice_last parsed = Some lastEvent
     \<and> State_update state (pe_blockHeight lastEvent) (pe_blockTimeUnixMs lastEvent) = Inr state'
     \<and> db_state (fst (exporter en d parsed b1 b2)) = Some state'
     \<and> db_contracts (fst (exporter en d parsed b1 b2)) = Contract_bulkCreate (db_contracts d) rows
     \<and> db_events (fst (exporter en d parsed b1 b2))
         = fst (WasmEvent_bulkCreate (db_events d, db_nextEventId d) parsed)
     \<and> db_nextEventId (fst (exporter en d parsed b1 b2))
         = snd (WasmEvent_bulkCreate (db_events d, db_nextEventId d) parsed)"
proof -
  from assms obtain state where s: "db_state d = Some state"
    by (cases "db_state d") (simp_all add: exporter_def)
  from assms s obtain ct where c: "createContracts 3 (bulkCreateFailures en d) (db_contracts d)
       (contractRows parsed (Set_values (map pe_contractAddress parsed))) = Inr ct"
    by (cases "createContracts 3 (bulkCreateFailures en d) (db_contracts d)
       (contractRows parsed (Set_values (map pe_contractAddress parsed)))")
      (simp_all add: exporter_def)
  from createContracts_3 [OF c] obtain rows where
    rows: "contractRows parsed (Set_values (map pe_contractAddress parsed)) = Inr rows"
    and ct: "ct = Contract_bulkCreate (db_contracts d) rows" by blast
  have e: "exporter en d parsed b1 b2 = exportEvents en state d ct parsed b2"
    by (simp add: exporter_def s c)
  from exportEvents_Inr [of en state d ct parsed b2 r] assms e obtain lastEvent state' where
    "slice_last parsed = Some lastEvent"
    "State_update state (pe_blockHeight lastEvent) (pe_blockTimeUnixMs lastEvent) = Inr state'"
    "db_state (fst (exportEvents en state d ct parsed b2)) = Some state'" by auto
  with s rows ct e exportEvents_tables [of en state d ct parsed b2] show ?thesis by auto
qed

subsection \<open>The exporter hands to the webhook queue events that carry their contract\<close>






subsection \<open>Stored values\<close>

lemma same_event_key_stored:
  "same_event_key (parseEvent cd event) row \<longleftrightarrow> row_key row = stored_key cd event"
  by (auto simp: same_event_key_def parseEvent_def Let_def row_key_def stored_key_def)

lemma bulk_last_wins:
  assumes "\<forall>q\<in>set ps2. \<forall>row. same_event_key p row \<longrightarrow> \<not> same_event_key q row"
  shows "list_ex (same_event_key p) (fst (foldl WasmEvent_upsert tn (ps1 @ p # ps2)))
     \<and> (\<forall>row\<in>set (fst (foldl WasmEvent_upsert tn (ps1 @ p # ps2))).
           same_event_key p row \<longrightarrow> WasmEvent_onDuplicate p row = row)"
proof -
  let ?t1 = "WasmEvent_upsert (foldl WasmEvent_upsert tn ps1) p"
  have f: "foldl WasmEvent_upsert tn (ps1 @ p # ps2) = foldl WasmEvent_upsert ?t1 ps2" by simp
  have present: "list_ex (same_event_key p) (fst (foldl WasmEvent_upsert ?t1 ps2))"
    by (rule bulk_keeps_present) (rule upsert_makes_present)
  have settled: "WasmEvent_onDuplicate p row = row"
    if r: "row \<in> set (fst (foldl WasmEvent_upsert ?t1 ps2))" and m: "same_event_key p row" for row
  proof -
    from assms m have "\<forall>q\<in>set ps2. \<not> same_event_key q row" by blast
    from bulk_unmatched_row_old [OF r this] have "row \<in> set (fst ?t1)" .
    from upsert_matched_row_settled [OF this m] show ?thesis .
  qed
  from present settled show ?thesis unfolding f by blast
qed

lemma settled_valueJson:
  "same_event_key p row \<Longrightarrow> WasmEvent_onDuplicate p row = row \<Longrightarrow>
   we_valueJson row = pe_valueJson p \<and> we_value row = pe_value p \<and> we_delete row = pe_delete p"
proof -
  assume m: "same_event_key p row" and s: "WasmEvent_onDuplicate p row = row"
  from m s have "updateOnDuplicate p row = row" by (simp add: WasmEvent_onDuplicate_def)
  then have "we_valueJson (updateOnDuplicate p row) = we_valueJson row"
    "we_value (updateOnDuplicate p row) = we_value row"
    "we_delete (updateOnDuplicate p row) = we_delete row" by simp_all
  then show ?thesis by (simp add: updateOnDuplicate_def)
qed

lemma parsed_valueJson:
  "pe_valueJson (parseEvent cd event) =
     (if \<not> ie_delete event \<and> ie_value event \<noteq> [] \<and> base64_to_utf8 cd (ie_value event) \<noteq> []
      then (case JSON_parse cd (base64_to_utf8 cd (ie_value event)) of
              Some j \<Rightarrow> j | None \<Rightarrow> JNull)
      else JNull)"
  by (simp add: parseEvent_def decoded_value_def Let_def)

lemma flush_stores_records:
  assumes f: "snd (flush cd en opts (m, d)) = Inr batch"
    and e: "event \<in> set batch"
    and k: "distinct (map (stored_key cd) batch)"
  shows "list_ex (\<lambda>row. row_key row = stored_key cd event)
           (db_events (snd (fst (flush cd en opts (m, d)))))
     \<and> list_all (\<lambda>row. row_key row = stored_key cd event \<longrightarrow>
                   we_valueJson row = pe_valueJson (parseEvent cd event)
                   \<and> we_delete row = ie_delete event)
         (db_events (snd (fst (flush cd en opts (m, d)))))"
proof -
  let ?ex = "exporter en d (parsedEvents cd (pending m))
               (\<not> opt_updateComputations opts) (\<not> opt_sendWebhooks opts)"
  from e f have ne: "pending m \<noteq> []" by (auto simp: flush_def)
  with f obtain r where r: "snd ?ex = Inr r" and b: "batch = eventsToExport (pending m)"
    and d': "snd (fst (flush cd en opts (m, d))) = fst ?ex"
    by (auto simp: flush_def split: prod.splits sum.splits)
  from exporter_Inr_form [OF r]
  have ev: "db_events (fst ?ex)
      = fst (WasmEvent_bulkCreate (db_events d, db_nextEventId d) (map (parseEvent cd) batch))"
    by (auto simp: parsedEvents_def b)
  from e obtain b1 b2 where s: "batch = b1 @ event # b2" by (auto dest: split_list)
  with k have later: "\<forall>x\<in>set b2. stored_key cd x \<noteq> stored_key cd event"
    by (auto simp: image_iff)
  have "\<forall>q\<in>set (map (parseEvent cd) b2). \<forall>row. same_event_key (parseEvent cd event) row
          \<longrightarrow> \<not> same_event_key q row"
    using later by (auto simp: same_event_key_stored)
  from bulk_last_wins [OF this, of "(db_events d, db_nextEventId d)" "map (parseEvent cd) b1"]
  have 1: "list_ex (same_event_key (parseEvent cd event)) (db_events (fst ?ex))"
    and 2: "\<forall>row\<in>set (db_events (fst ?ex)). same_event_key (parseEvent cd event) row
              \<longrightarrow> WasmEvent_onDuplicate (parseEvent cd event) row = row"
    by (simp_all add: ev s WasmEvent_bulkCreate_def)
  have p: "pe_delete (parseEvent cd event) = ie_delete event"
    by (simp add: parseEvent_def Let_def)
  from 1 2 show ?thesis
    unfolding d'
    by (auto simp: list_ex_iff list_all_iff same_event_key_stored p [symmetric]
        dest: settled_valueJson [of "parseEvent cd event", unfolded same_event_key_stored])
qed

text \<open>
  C6. For every input record, the parsed \<open>valueJson\<close> is the JSON parse of the
  base64-decoded value when the record is no delete, the decoded value is non-empty (the
  code does not decode an empty \<open>value\<close>: it is the empty string) and the parse succeeds,
  and \<^verbatim>\<open>null\<close> in every other case, so for every record with delete set. And it is
  what is stored: after a flush that returned, for every record of its batch (the stored
  keys of the batch being distinct) the events table has a row with the record's key,
  and every row with that key holds this \<open>valueJson\<close> and the record's delete flag.
\<close>

theorem stored_valueJson_of_record:
  "pe_valueJson (parseEvent cd event) =
       (if \<not> ie_delete event \<and> ie_value event \<noteq> []
           \<and> base64_to_utf8 cd (ie_value event) \<noteq> []
        then (case JSON_parse cd (base64_to_utf8 cd (ie_value event)) of
                Some j \<Rightarrow> j | None \<Rightarrow> JNull)
        else JNull)
   \<and> (snd (flush cd en opts (m, d)) = Inr batch \<and> event \<in> set batch
        \<and> distinct (map (stored_key cd) batch) \<longrightarrow>
      list_ex (\<lambda>row. row_key row = stored_key cd event)
        (db_events (snd (fst (flush cd en opts (m, d)))))
      \<and> list_all (\<lambda>row. row_key row = stored_key cd event \<longrightarrow>
            we_valueJson row =
              (if \<not> ie_delete event \<and> ie_value event \<noteq> []
           \<and> base64_to_utf8 cd (ie_value event) \<noteq> []
        then (case JSON_parse cd (base64_to_utf8 cd (ie_value event)) of
                Some j \<Rightarrow> j | None \<Rightarrow> JNull)
        else JNull)
            \<and> we_delete row = ie_delete event)
          (db_events (snd (fst (flush cd en opts (m, d))))))"
  using flush_stores_records [of cd en opts m d batch event]
  by (simp add: parsed_valueJson)

theorem stored_valueJson_of_record_witness:
  "snd (flush codecs_A env_one_hook options_batch1
          (\<lparr>pending = [record_A5, record_A5_delete], lastBlockHeightSeen = 5, catchingUp = False\<rparr>,
           db_fresh))
     = Inr [record_A5, record_A5_delete]
   \<and> record_A5 \<in> set [record_A5, record_A5_delete]
   \<and> distinct (map (stored_key codecs_A) [record_A5, record_A5_delete])
   \<and> stored_key codecs_A record_A5 = (''5'', ''A'', ''107,49'')
   \<and> list_ex (\<lambda>row. row_key row = (''5'', ''A'', ''107,49''))
        (db_events (snd (fst (flush codecs_A env_one_hook options_batch1
          (\<lparr>pending = [record_A5, record_A5_delete], lastBlockHeightSeen = 5, catchingUp = False\<rparr>,
           db_fresh)))))
   \<and> list_all (\<lambda>row. row_key row = (''5'', ''A'', ''107,49'') \<longrightarrow>
                 we_valueJson row = JNum 10 \<and> we_delete row = False)
        (db_events (snd (fst (flush codecs_A env_one_hook options_batch1
          (\<lparr>pending = [record_A5, record_A5_delete], lastBlockHeightSeen = 5, catchingUp = False\<rparr>,
           db_fresh)))))"
proof -
  have f: "snd (flush codecs_A env_one_hook options_batch1
          (\<lparr>pending = [record_A5, record_A5_delete], lastBlockHeightSeen = 5, catchingUp = False\<rparr>,
           db_fresh))
     = Inr [record_A5, record_A5_delete]" by (simp add: flush_A5)
  have k5: "stored_key codecs_A record_A5 = (''5'', ''A'', ''107,49'')"
    by (simp add: stored_key_def codecs_A_def record_A5_def show_nat.simps digit_char_def
        decimal_digits_def)
  have k5d: "stored_key codecs_A record_A5_delete = (''5'', ''A'', ''azI='')"
    by (simp add: stored_key_def codecs_A_def record_A5_delete_def show_nat.simps digit_char_def
        decimal_digits_def)
  have v: "ie_delete record_A5 = False" "ie_value record_A5 = ''MTA=''"
    "base64_to_utf8 codecs_A ''MTA='' = ''10''" "JSON_parse codecs_A ''10'' = Some (JNum 10)"
    by (simp_all add: record_A5_def codecs_A_def)
  from stored_valueJson_of_record [of codecs_A record_A5 env_one_hook options_batch1
      "\<lparr>pending = [record_A5, record_A5_delete], lastBlockHeightSeen = 5, catchingUp = False\<rparr>"
      db_fresh "[record_A5, record_A5_delete]"] f
  show ?thesis
    by (simp add: k5 k5d v)
qed

subsection \<open>Replay\<close>










end
